theory Spec2Isabelle
  imports Complex_Main "HOL-Library.AList"
begin

section \<open>The property framework (property.h, property_builtins.h)\<close>

subsection \<open>Result\<close>

text \<open>
  Modelled from the spec: \<^verbatim>\<open>result.h\<close> is not among the sources. \<^verbatim>\<open>Result<void>\<close> is either
  \<^verbatim>\<open>Result<void>::ok()\<close> or \<^verbatim>\<open>Result<void>::error(msg)\<close>, "a failure result carrying a
  human-readable reason"; \<^verbatim>\<open>valid()\<close> tells the two apart.
\<close>

datatype Result = Ok | Error string

fun valid :: "Result \<Rightarrow> bool" where
  "valid Ok = True"
| "valid (Error msg) = False"

subsection \<open>Property\<close>

text \<open>
  The private members of \<^verbatim>\<open>class Property\<close>. \<^verbatim>\<open>m_group\<close> is a \<^verbatim>\<open>PropertyGroup* const\<close>:
  an address, \<open>None\<close> for \<^verbatim>\<open>nullptr\<close>.
\<close>

record Property =
  m_group :: "nat option"
  m_name :: string
  m_description :: string
  m_isUserReadOnly :: bool
  m_isUserVisible :: bool
  m_isEnabled :: bool

text \<open>
  The constructor \<^verbatim>\<open>Property(PropertyGroup* group, const TextId& name)\<close> with the default
  member initialisers of the class declaration.
\<close>

definition Property_ctor :: "nat option \<Rightarrow> string \<Rightarrow> Property" where
  "Property_ctor grp name =
     \<lparr>m_group = grp, m_name = name, m_description = [],
      m_isUserReadOnly = False, m_isUserVisible = True, m_isEnabled = True\<rparr>"

text \<open>
  Modelled from the spec: \<^verbatim>\<open>Property::hasGroup()\<close> is declared only. The write protocol
  distinguishes a property with "no owning group" from one that "has an owning group";
  the owning group is \<^verbatim>\<open>m_group\<close>.
\<close>

definition hasGroup :: "'z Property_scheme \<Rightarrow> bool" where
  "hasGroup prop = (m_group prop \<noteq> None)"

text \<open>
  A property lives in a world that also observes the calls the write protocol makes on
  the property's protected interface: \<^verbatim>\<open>isValid()\<close> and \<^verbatim>\<open>notifyChanged()\<close>.
\<close>

datatype call = Call_isValid | Call_notifyChanged

record 'p world =
  obj :: 'p
  calls :: "call list"

text \<open>
  Modelled from the spec: \<^verbatim>\<open>Property::notifyChanged()\<close> is declared only. It is the
  "fire change notification" step of the write protocol; the world records that it was
  fired. (Whether the owning group then runs \<^verbatim>\<open>onPropertyChanged\<close> depends on the group's
  blocked flag, see below.)
\<close>

definition notifyChanged :: "'p world \<Rightarrow> 'p world" where
  "notifyChanged w = w\<lparr>calls := calls w @ [Call_notifyChanged]\<rparr>"

text \<open>
  \<^verbatim>\<open>Property::setValueHelper(Property* prop, T* ptrValue, const T& newValue)\<close>.
  \<^verbatim>\<open>ptrValue\<close> points at a member of \<^verbatim>\<open>*prop\<close>: it is given by the member's reader \<open>get\<close>
  and writer \<open>put\<close>. \<^verbatim>\<open>Property::isValid()\<close> is declared only and forwards to hooks of the
  owning group, so it is the parameter \<open>isValid\<close>, applied to the property as it is at
  the time of the call (the new value already stored).
\<close>

definition setValueHelper ::
  "('z Property_scheme \<Rightarrow> Result) \<Rightarrow> ('z Property_scheme \<Rightarrow> 'a) \<Rightarrow>
   ('a \<Rightarrow> 'z Property_scheme \<Rightarrow> 'z Property_scheme) \<Rightarrow> 'a \<Rightarrow>
   'z Property_scheme world \<Rightarrow> Result \<times> 'z Property_scheme world" where
  "setValueHelper isValid get put newValue w =
     (if hasGroup (obj w) then
        (let previousValue = get (obj w);
             w1 = w\<lparr>obj := put newValue (obj w)\<rparr>;
             result = isValid (obj w1);
             w2 = w1\<lparr>calls := calls w1 @ [Call_isValid]\<rparr>
         in if valid result then (result, notifyChanged w2)
            else (result, w2\<lparr>obj := put previousValue (obj w2)\<rparr>))
      else (Ok, notifyChanged (w\<lparr>obj := put newValue (obj w)\<rparr>)))"

subsection \<open>GenericProperty\<close>

record 'a GenericProperty = Property +
  m_value :: 'a

definition "value" :: "('a, 'z) GenericProperty_scheme \<Rightarrow> 'a" where
  "value prop = m_value prop"

definition setValue ::
  "(('a, 'z) GenericProperty_scheme \<Rightarrow> Result) \<Rightarrow> 'a \<Rightarrow>
   ('a, 'z) GenericProperty_scheme world \<Rightarrow> Result \<times> ('a, 'z) GenericProperty_scheme world" where
  "setValue isValid val w =
     setValueHelper isValid m_value (\<lambda>v prop. prop\<lparr>m_value := v\<rparr>) val w"

text \<open>
  \<^verbatim>\<open>QVariant\<close> belongs to Qt, not to this repository: the type of variants is the type
  variable \<open>'v\<close>, and \<^verbatim>\<open>QVariant::fromValue<T>\<close>, \<^verbatim>\<open>QVariant::canConvert<T>\<close> and
  \<^verbatim>\<open>QVariant::value<T>\<close> are the parameters \<open>fromValue\<close>, \<open>canConvert\<close> and \<open>value_of\<close>.
\<close>

definition valueAsVariant :: "('a \<Rightarrow> 'v) \<Rightarrow> ('a, 'z) GenericProperty_scheme \<Rightarrow> 'v" where
  "valueAsVariant fromValue prop = fromValue (value prop)"

definition setValueFromVariant ::
  "('v \<Rightarrow> bool) \<Rightarrow> ('v \<Rightarrow> 'a) \<Rightarrow> (('a, 'z) GenericProperty_scheme \<Rightarrow> Result) \<Rightarrow> 'v \<Rightarrow>
   ('a, 'z) GenericProperty_scheme world \<Rightarrow> Result \<times> ('a, 'z) GenericProperty_scheme world" where
  "setValueFromVariant canConvert value_of isValid variant w =
     (if canConvert variant then setValue isValid (value_of variant) w
      else (Error ''Incompatible type'', w))"

subsection \<open>PropertyScalarConstraints and GenericScalarProperty\<close>

record 'a PropertyScalarConstraints =
  m_minimum :: 'a
  m_maximum :: 'a
  m_singleStep :: 'a
  m_constraintsEnabled :: bool

text \<open>
  \<^verbatim>\<open>PropertyScalarConstraints() = default\<close> leaves the three scalar members uninitialised;
  whatever they hold is given by \<open>u1\<close>, \<open>u2\<close>, \<open>u3\<close>. Only \<^verbatim>\<open>m_constraintsEnabled\<close> has a
  default member initialiser.
\<close>

definition PropertyScalarConstraints_default ::
  "'a \<Rightarrow> 'a \<Rightarrow> 'a \<Rightarrow> 'a PropertyScalarConstraints" where
  "PropertyScalarConstraints_default u1 u2 u3 =
     \<lparr>m_minimum = u1, m_maximum = u2, m_singleStep = u3, m_constraintsEnabled = False\<rparr>"

definition PropertyScalarConstraints_ctor ::
  "'a \<Rightarrow> 'a \<Rightarrow> 'a \<Rightarrow> 'a PropertyScalarConstraints" where
  "PropertyScalarConstraints_ctor minVal maxVal step =
     \<lparr>m_minimum = minVal, m_maximum = maxVal, m_singleStep = step,
      m_constraintsEnabled = True\<rparr>"

definition constraintsEnabled :: "'a PropertyScalarConstraints \<Rightarrow> bool" where
  "constraintsEnabled c = m_constraintsEnabled c"

definition setConstraintsEnabled ::
  "bool \<Rightarrow> 'a PropertyScalarConstraints \<Rightarrow> 'a PropertyScalarConstraints" where
  "setConstraintsEnabled on c = c\<lparr>m_constraintsEnabled := on\<rparr>"

definition minimum :: "'a PropertyScalarConstraints \<Rightarrow> 'a" where
  "minimum c = m_minimum c"

definition setMinimum :: "'a \<Rightarrow> 'a PropertyScalarConstraints \<Rightarrow> 'a PropertyScalarConstraints" where
  "setMinimum val c = c\<lparr>m_minimum := val\<rparr>"

definition maximum :: "'a PropertyScalarConstraints \<Rightarrow> 'a" where
  "maximum c = m_maximum c"

definition setMaximum :: "'a \<Rightarrow> 'a PropertyScalarConstraints \<Rightarrow> 'a PropertyScalarConstraints" where
  "setMaximum val c = c\<lparr>m_maximum := val\<rparr>"

definition setRange ::
  "'a \<Rightarrow> 'a \<Rightarrow> 'a PropertyScalarConstraints \<Rightarrow> 'a PropertyScalarConstraints" where
  "setRange minVal maxVal c = setMaximum maxVal (setMinimum minVal c)"

definition singleStep :: "'a PropertyScalarConstraints \<Rightarrow> 'a" where
  "singleStep c = m_singleStep c"

definition setSingleStep :: "'a \<Rightarrow> 'a PropertyScalarConstraints \<Rightarrow> 'a PropertyScalarConstraints" where
  "setSingleStep step c = c\<lparr>m_singleStep := step\<rparr>"

text \<open>
  \<^verbatim>\<open>GenericScalarProperty<T>\<close> derives from \<^verbatim>\<open>GenericProperty<T>\<close> and from
  \<^verbatim>\<open>PropertyScalarConstraints<T>\<close>; the second base is the sub-object \<open>scalarConstraints\<close>.
\<close>

record 'a GenericScalarProperty = "'a GenericProperty" +
  scalarConstraints :: "'a PropertyScalarConstraints"

text \<open>
  The two constructors: the \<^verbatim>\<open>Property\<close> base, extended by the member of
  \<^verbatim>\<open>GenericProperty\<close> and by the constraints. \<^verbatim>\<open>T m_value = {}\<close> value-initialises a scalar
  to zero. The first constructor names no \<^verbatim>\<open>PropertyScalarConstraints\<close> initialiser, so
  that base is default-constructed.
\<close>

definition GenericScalarProperty_ctor2 ::
  "'a \<Rightarrow> 'a \<Rightarrow> 'a \<Rightarrow> nat option \<Rightarrow> string \<Rightarrow> ('a::zero) GenericScalarProperty" where
  "GenericScalarProperty_ctor2 u1 u2 u3 grp name =
     GenericProperty.extend (Property.extend (Property_ctor grp name)
         (GenericProperty.fields 0))
       (GenericScalarProperty.fields (PropertyScalarConstraints_default u1 u2 u3))"

definition GenericScalarProperty_ctor5 ::
  "nat option \<Rightarrow> string \<Rightarrow> 'a \<Rightarrow> 'a \<Rightarrow> 'a \<Rightarrow> ('a::zero) GenericScalarProperty" where
  "GenericScalarProperty_ctor5 grp name minVal maxVal step =
     GenericProperty.extend (Property.extend (Property_ctor grp name)
         (GenericProperty.fields 0))
       (GenericScalarProperty.fields
          (PropertyScalarConstraints_ctor minVal maxVal step))"

text \<open>
  Calling a member function \<open>f\<close> of the \<^verbatim>\<open>PropertyScalarConstraints\<close> base on a scalar
  property that lives in a world.
\<close>

definition onScalarConstraints ::
  "('a PropertyScalarConstraints \<Rightarrow> 'a PropertyScalarConstraints) \<Rightarrow>
   'a GenericScalarProperty world \<Rightarrow> 'a GenericScalarProperty world" where
  "onScalarConstraints f w =
     w\<lparr>obj := (obj w)\<lparr>scalarConstraints := f (scalarConstraints (obj w))\<rparr>\<rparr>"

text \<open>
  Modelled from the spec: the constraint check of the write protocol is not among the
  sources. "If constraints are enabled, every successfully committed value lies in
  [minimum, maximum]; violating writes are rejected."
\<close>

definition checkScalarConstraints :: "('a::linorder) PropertyScalarConstraints \<Rightarrow> 'a \<Rightarrow> Result" where
  "checkScalarConstraints c v =
     (if constraintsEnabled c \<and> (v < minimum c \<or> maximum c < v)
      then Error ''Value out of range'' else Ok)"

subsection \<open>Quantity properties\<close>

text \<open>
  The unit categories named by the aliases \<^verbatim>\<open>PropertyLength\<close> ... \<^verbatim>\<open>PropertyVelocity\<close>
  (\<^verbatim>\<open>Unit::Length\<close> and so on).
\<close>

datatype Unit = Length | Area | Volume | Mass | Time | Angle | Velocity

text \<open>
  \<^verbatim>\<open>BasePropertyQuantity\<close> derives from \<^verbatim>\<open>Property\<close> and from
  \<^verbatim>\<open>PropertyScalarConstraints<double>\<close>. In \<^verbatim>\<open>GenericPropertyQuantity<UNIT>\<close> the template
  argument is the field \<open>UNIT\<close>, and a \<^verbatim>\<open>Quantity<UNIT>\<close> is its magnitude, a \<^verbatim>\<open>double\<close>
  taken as a real number (no arithmetic is done on it here).
\<close>

record BasePropertyQuantity = Property +
  quantityConstraints :: "real PropertyScalarConstraints"

record GenericPropertyQuantity = BasePropertyQuantity +
  UNIT :: Unit
  m_quantity :: real

definition quantityUnit :: "GenericPropertyQuantity \<Rightarrow> Unit" where
  "quantityUnit prop = UNIT prop"

definition quantity :: "GenericPropertyQuantity \<Rightarrow> real" where
  "quantity prop = m_quantity prop"

definition quantityValue :: "GenericPropertyQuantity \<Rightarrow> real" where
  "quantityValue prop = quantity prop"

definition setQuantity ::
  "(GenericPropertyQuantity \<Rightarrow> Result) \<Rightarrow> real \<Rightarrow>
   GenericPropertyQuantity world \<Rightarrow> Result \<times> GenericPropertyQuantity world" where
  "setQuantity isValid qty w =
     setValueHelper isValid m_quantity (\<lambda>v prop. prop\<lparr>m_quantity := v\<rparr>) qty w"

definition setQuantityValue ::
  "(GenericPropertyQuantity \<Rightarrow> Result) \<Rightarrow> real \<Rightarrow>
   GenericPropertyQuantity world \<Rightarrow> Result \<times> GenericPropertyQuantity world" where
  "setQuantityValue isValid v w = setQuantity isValid v w"

text \<open>
  Modelled from the spec: \<^verbatim>\<open>qmeta_quantity.h\<close>, which declares \<^verbatim>\<open>Quantity<UNIT>\<close> to Qt's
  meta-type system, is not among the sources. A variant boxing a \<^verbatim>\<open>Quantity<UNIT>\<close> holds
  the type it was boxed at and the value: "the unit tag, not just the magnitude". A variant
  of any other type is \<open>QVariant_Other\<close>; \<^verbatim>\<open>QVariant::value<T>\<close> of a variant that cannot
  be converted is a default-constructed \<^verbatim>\<open>T\<close>.
\<close>

datatype 'x QVariant = QVariant_Invalid | QVariant_Quantity Unit real | QVariant_Other 'x

definition fromValue_Quantity :: "Unit \<Rightarrow> real \<Rightarrow> 'x QVariant" where
  "fromValue_Quantity u qty = QVariant_Quantity u qty"

fun canConvert_Quantity :: "Unit \<Rightarrow> 'x QVariant \<Rightarrow> bool" where
  "canConvert_Quantity u (QVariant_Quantity u' qty) = (u' = u)"
| "canConvert_Quantity u QVariant_Invalid = False"
| "canConvert_Quantity u (QVariant_Other x) = False"

fun value_Quantity :: "Unit \<Rightarrow> 'x QVariant \<Rightarrow> real" where
  "value_Quantity u (QVariant_Quantity u' qty) = (if u' = u then qty else 0)"
| "value_Quantity u QVariant_Invalid = 0"
| "value_Quantity u (QVariant_Other x) = 0"

text \<open>What a reader of a variant sees of a boxed quantity.\<close>

fun variantUnit :: "'x QVariant \<Rightarrow> Unit option" where
  "variantUnit (QVariant_Quantity u qty) = Some u"
| "variantUnit QVariant_Invalid = None"
| "variantUnit (QVariant_Other x) = None"

fun variantMagnitude :: "'x QVariant \<Rightarrow> real option" where
  "variantMagnitude (QVariant_Quantity u qty) = Some qty"
| "variantMagnitude QVariant_Invalid = None"
| "variantMagnitude (QVariant_Other x) = None"

definition Quantity_valueAsVariant :: "GenericPropertyQuantity \<Rightarrow> 'x QVariant" where
  "Quantity_valueAsVariant prop = fromValue_Quantity (UNIT prop) (quantity prop)"

definition Quantity_setValueFromVariant ::
  "(GenericPropertyQuantity \<Rightarrow> Result) \<Rightarrow> 'x QVariant \<Rightarrow>
   GenericPropertyQuantity world \<Rightarrow> Result \<times> GenericPropertyQuantity world" where
  "Quantity_setValueFromVariant isValid variant w =
     (if canConvert_Quantity (UNIT (obj w)) variant
      then setQuantity isValid (value_Quantity (UNIT (obj w)) variant) w
      else (Error ''Incompatible quantity type'', w))"

subsection \<open>PropertyGroup and PropertyChangedBlocker\<close>

text \<open>The private members of \<^verbatim>\<open>class PropertyGroup\<close>; properties and groups are addresses.\<close>

record PropertyGroup =
  m_parentGroup :: "nat option"
  m_properties :: "nat list"
  m_propertyChangedBlocked :: bool

definition PropertyGroup_ctor :: "nat option \<Rightarrow> PropertyGroup" where
  "PropertyGroup_ctor parentGroup =
     \<lparr>m_parentGroup = parentGroup, m_properties = [], m_propertyChangedBlocked = False\<rparr>"

text \<open>
  Modelled from the spec: \<^verbatim>\<open>PropertyGroup::blockPropertyChanged(bool on)\<close> and
  \<^verbatim>\<open>isPropertyChangedBlocked()\<close> are declared only. The group "tracks a single boolean
  change notifications suppressed flag", the member \<^verbatim>\<open>m_propertyChangedBlocked\<close>.
\<close>

definition blockPropertyChanged :: "bool \<Rightarrow> PropertyGroup \<Rightarrow> PropertyGroup" where
  "blockPropertyChanged on grp = grp\<lparr>m_propertyChangedBlocked := on\<rparr>"

definition isPropertyChangedBlocked :: "PropertyGroup \<Rightarrow> bool" where
  "isPropertyChangedBlocked grp = m_propertyChangedBlocked grp"

text \<open>
  \<^verbatim>\<open>struct PropertyChangedBlocker\<close> has one member,
  \<^verbatim>\<open>PropertyGroup* const m_group = nullptr\<close>: an address, \<open>None\<close> for \<^verbatim>\<open>nullptr\<close>. The groups
  it can point to live in a store, from addresses to groups.
\<close>

record PropertyChangedBlocker =
  blocker_m_group :: "nat option"

type_synonym groups = "nat \<Rightarrow> PropertyGroup"

text \<open>
  Modelled from the spec: the constructor of \<^verbatim>\<open>PropertyChangedBlocker\<close> is declared only.
  "Entering a blocked region suspends onPropertyChanged callbacks; leaving it restores the
  exact prior blocked/unblocked state, supporting nested blocking regions without losing
  the outer state." The comment on the declaration says the same: the struct "blocks call
  to PropertyGroup::onPropertyChanged() in its constructor". The prior state that the
  destructor has to restore is kept in the one member the struct has: the constructor
  keeps the group only when it found it not blocked and blocked it itself; for a group
  that is blocked already, and for no group, the member stays \<^verbatim>\<open>nullptr\<close>.
\<close>

definition PropertyChangedBlocker_ctor ::
  "nat option \<Rightarrow> groups \<Rightarrow> PropertyChangedBlocker \<times> groups" where
  "PropertyChangedBlocker_ctor grp h =
     (case grp of
        None \<Rightarrow> (\<lparr>blocker_m_group = None\<rparr>, h)
      | Some a \<Rightarrow>
          if isPropertyChangedBlocked (h a) then (\<lparr>blocker_m_group = None\<rparr>, h)
          else (\<lparr>blocker_m_group = Some a\<rparr>, h(a := blockPropertyChanged True (h a))))"

text \<open>
  Modelled from the spec: the destructor of \<^verbatim>\<open>PropertyChangedBlocker\<close> is declared only.
  "Leaving it restores the exact prior blocked/unblocked state"; the comment on the
  declaration: "in the destructor it resets the state to what it was before the
  constructor ran". A blocker that kept its group found it not blocked, so it unblocks
  it; a blocker that kept none leaves the store as it is.
\<close>

definition PropertyChangedBlocker_dtor :: "PropertyChangedBlocker \<Rightarrow> groups \<Rightarrow> groups" where
  "PropertyChangedBlocker_dtor b h =
     (case blocker_m_group b of
        None \<Rightarrow> h
      | Some a \<Rightarrow> h(a := blockPropertyChanged False (h a)))"

text \<open>
  Nested blocked scopes on one group. \<open>enterBlockers n\<close> constructs \<open>n\<close> blockers one inside
  the other and returns them innermost first, with the store they leave; \<open>leaveBlockers\<close>
  destroys blockers in the order of the list, as leaving the scopes does.
\<close>

fun enterBlockers ::
  "nat \<Rightarrow> nat option \<Rightarrow> groups \<Rightarrow> PropertyChangedBlocker list \<times> groups" where
  "enterBlockers 0 grp h = ([], h)"
| "enterBlockers (Suc n) grp h =
     (case PropertyChangedBlocker_ctor grp h of
        (b, h1) \<Rightarrow> (case enterBlockers n grp h1 of (bs, h2) \<Rightarrow> (bs @ [b], h2)))"

fun leaveBlockers :: "PropertyChangedBlocker list \<Rightarrow> groups \<Rightarrow> groups" where
  "leaveBlockers [] h = h"
| "leaveBlockers (b # bs) h = leaveBlockers bs (PropertyChangedBlocker_dtor b h)"

section \<open>The settings registry (settings.h)\<close>

text \<open>
  Modelled from the spec: \<^verbatim>\<open>settings.h\<close> declares \<^verbatim>\<open>addGroup\<close>, \<^verbatim>\<open>addSection\<close> and
  \<^verbatim>\<open>addSetting\<close>; their bodies and the private data of \<^verbatim>\<open>Settings\<close> are not among the
  sources. The registry is "a three-level tree": a Group has sections and "at least one
  implicit default section", a Section has settings, a Setting "wraps exactly one
  Property". Each node has "a stable byte-identifier" and "a human-readable title". An add
  operation appends "a new node" and returns "an opaque index"; it "fails if the
  identifier already exists in that parent scope". A Setting's identifier is the name of
  the property it wraps.
\<close>

record Settings_Setting =
  setting_identifier :: string
  setting_property :: nat

record Settings_Section =
  section_identifier :: string
  section_title :: string
  section_isDefault :: bool
  section_settings :: "Settings_Setting list"

record Settings_Group =
  group_identifier :: string
  group_title :: string
  group_sections :: "Settings_Section list"

type_synonym Settings = "Settings_Group list"

type_synonym GroupIndex = nat
type_synonym SectionIndex = "nat \<times> nat"
type_synonym SettingIndex = "(nat \<times> nat) \<times> nat"

datatype SettingsError = DuplicateIdentifierError | InvalidIndexError

definition defaultSection :: Settings_Section where
  "defaultSection =
     \<lparr>section_identifier = [], section_title = [], section_isDefault = True,
      section_settings = []\<rparr>"

text \<open>
  Modelled from the spec: the body of \<^verbatim>\<open>Settings::addGroup\<close> is not among the sources. It
  appends a group with its implicit default section and returns the group's index, and
  it rejects an identifier that a group of the registry already has.
\<close>

definition addGroup :: "string \<Rightarrow> Settings \<Rightarrow> SettingsError + (GroupIndex \<times> Settings)" where
  "addGroup identifier s =
     (if identifier \<in> set (map group_identifier s) then Inl DuplicateIdentifierError
      else Inr (length s,
             s @ [\<lparr>group_identifier = identifier, group_title = identifier,
                   group_sections = [defaultSection]\<rparr>]))"

text \<open>
  Modelled from the spec: the body of \<^verbatim>\<open>Settings::addSection\<close> is not among the sources.
  It appends a section to the group at \<open>index\<close> and returns the section's index, and it
  rejects an identifier that a section of that group already has. The spec does not say
  what an index outside the registry gives; here it is an error of its own.
\<close>

definition addSection ::
  "GroupIndex \<Rightarrow> string \<Rightarrow> Settings \<Rightarrow> SettingsError + (SectionIndex \<times> Settings)" where
  "addSection index identifier s =
     (if length s \<le> index then Inl InvalidIndexError
      else let grp = s ! index in
        if identifier \<in> set (map section_identifier (group_sections grp))
        then Inl DuplicateIdentifierError
        else Inr ((index, length (group_sections grp)),
               s[index := grp\<lparr>group_sections := group_sections grp @
                   [\<lparr>section_identifier = identifier, section_title = identifier,
                     section_isDefault = False, section_settings = []\<rparr>]\<rparr>]))"

text \<open>
  Modelled from the spec: the body of \<^verbatim>\<open>Settings::addSetting\<close> is not among the sources.
  It appends a setting that wraps the property (an address, with the property's name as
  the setting's identifier) to the section at \<open>index\<close> and returns the setting's index, and
  it rejects an identifier that a setting of that section already has.
\<close>

definition addSetting ::
  "nat \<Rightarrow> string \<Rightarrow> SectionIndex \<Rightarrow> Settings \<Rightarrow> SettingsError + (SettingIndex \<times> Settings)" where
  "addSetting property name index s =
     (case index of (gi, si) \<Rightarrow>
        if length s \<le> gi then Inl InvalidIndexError
        else let grp = s ! gi in
          if length (group_sections grp) \<le> si then Inl InvalidIndexError
          else let sec = group_sections grp ! si in
            if name \<in> set (map setting_identifier (section_settings sec))
            then Inl DuplicateIdentifierError
            else Inr ((index, length (section_settings sec)),
                   s[gi := grp\<lparr>group_sections := (group_sections grp)[si :=
                       sec\<lparr>section_settings := section_settings sec @
                         [\<lparr>setting_identifier = name, setting_property = property\<rparr>]\<rparr>]\<rparr>]))"

text \<open>The identifiers registered in one scope.\<close>

definition sectionIdentifiers :: "GroupIndex \<Rightarrow> Settings \<Rightarrow> string list" where
  "sectionIdentifiers index s = map section_identifier (group_sections (s ! index))"

definition settingIdentifiers :: "SectionIndex \<Rightarrow> Settings \<Rightarrow> string list" where
  "settingIdentifiers index s =
     map setting_identifier (section_settings (group_sections (s ! fst index) ! snd index))"

section \<open>The DXF reader (io_dxf.cpp)\<close>

subsection \<open>Geometry of the kernel\<close>

text \<open>
  The geometry kernel is a library outside this repository. Its values are modelled by
  what the reader's code reads of them; a \<^verbatim>\<open>double\<close> is taken as a real number.
  A point or vector is its three coordinates.
\<close>

type_synonym gp_XYZ = "real \<times> real \<times> real"
type_synonym gp_Pnt = gp_XYZ
type_synonym gp_Mat = "gp_XYZ \<times> gp_XYZ \<times> gp_XYZ"

fun Distance :: "gp_Pnt \<Rightarrow> gp_Pnt \<Rightarrow> real" where
  "Distance (x1, y1, z1) (x2, y2, z2) =
     sqrt ((x1 - x2) * (x1 - x2) + (y1 - y2) * (y1 - y2) + (z1 - z2) * (z1 - z2))"

definition IsEqual :: "gp_Pnt \<Rightarrow> gp_Pnt \<Rightarrow> real \<Rightarrow> bool" where
  "IsEqual p q tolerance = (Distance p q \<le> tolerance)"

definition Precision_Confusion :: real where
  "Precision_Confusion = 1 / 10000000"

definition DZ :: gp_XYZ where
  "DZ = (0, 0, 1)"

fun Reversed :: "gp_XYZ \<Rightarrow> gp_XYZ" where
  "Reversed (x, y, z) = (- x, - y, - z)"

record gp_Ax2 =
  ax_location :: gp_Pnt
  ax_direction :: gp_XYZ

record gp_Circ =
  circ_position :: gp_Ax2
  circ_radius :: real

definition Radius :: "gp_Circ \<Rightarrow> real" where
  "Radius c = circ_radius c"

text \<open>
  An ellipse: its axes, its two radii and the angle it was rotated by about its own axis.
  The constructor of \<^verbatim>\<open>gp_Elips\<close> raises when the minor radius is negative or exceeds the
  major one.
\<close>

record gp_Elips =
  elips_position :: gp_Ax2
  elips_major :: real
  elips_minor :: real
  elips_rotation :: real

definition gp_Elips_ctor :: "gp_Ax2 \<Rightarrow> real \<Rightarrow> real \<Rightarrow> gp_Elips option" where
  "gp_Elips_ctor a2 major minor =
     (if minor < 0 \<or> major < minor then None
      else Some \<lparr>elips_position = a2, elips_major = major, elips_minor = minor,
                 elips_rotation = 0\<rparr>)"

definition Rotate :: "real \<Rightarrow> gp_Elips \<Rightarrow> gp_Elips" where
  "Rotate ang e = e\<lparr>elips_rotation := elips_rotation e + ang\<rparr>"

definition MinorRadius :: "gp_Elips \<Rightarrow> real" where
  "MinorRadius e = elips_minor e"

text \<open>
  A transformation \<^verbatim>\<open>gp_Trsf\<close> is the affine map "matrix times point plus translation"
  (the kernel keeps the scale factor apart from the matrix; here it is inside the matrix).
  \<open>Transforms\<close> applies it to a point. The kernel's \<^verbatim>\<open>operator*\<close> is \<open>Multiplied\<close>: the
  composition that transforms a point by its right operand first and by its left operand
  afterwards.
\<close>

record gp_Trsf =
  trsf_matrix :: gp_Mat
  trsf_loc :: gp_XYZ

fun dot :: "gp_XYZ \<Rightarrow> gp_XYZ \<Rightarrow> real" where
  "dot (a, b, c) (x, y, z) = a * x + b * y + c * z"

fun mat_vec :: "gp_Mat \<Rightarrow> gp_XYZ \<Rightarrow> gp_XYZ" where
  "mat_vec (r1, r2, r3) v = (dot r1 v, dot r2 v, dot r3 v)"

fun col1 :: "gp_Mat \<Rightarrow> gp_XYZ" where
  "col1 ((a11, a12, a13), (a21, a22, a23), (a31, a32, a33)) = (a11, a21, a31)"

fun col2 :: "gp_Mat \<Rightarrow> gp_XYZ" where
  "col2 ((a11, a12, a13), (a21, a22, a23), (a31, a32, a33)) = (a12, a22, a32)"

fun col3 :: "gp_Mat \<Rightarrow> gp_XYZ" where
  "col3 ((a11, a12, a13), (a21, a22, a23), (a31, a32, a33)) = (a13, a23, a33)"

fun mat_mul :: "gp_Mat \<Rightarrow> gp_Mat \<Rightarrow> gp_Mat" where
  "mat_mul (r1, r2, r3) m =
     ((dot r1 (col1 m), dot r1 (col2 m), dot r1 (col3 m)),
      (dot r2 (col1 m), dot r2 (col2 m), dot r2 (col3 m)),
      (dot r3 (col1 m), dot r3 (col2 m), dot r3 (col3 m)))"

fun xyz_add :: "gp_XYZ \<Rightarrow> gp_XYZ \<Rightarrow> gp_XYZ" where
  "xyz_add (a, b, c) (x, y, z) = (a + x, b + y, c + z)"

definition Transforms :: "gp_Trsf \<Rightarrow> gp_Pnt \<Rightarrow> gp_Pnt" where
  "Transforms t p = xyz_add (mat_vec (trsf_matrix t) p) (trsf_loc t)"

definition Multiplied :: "gp_Trsf \<Rightarrow> gp_Trsf \<Rightarrow> gp_Trsf" where
  "Multiplied a b =
     \<lparr>trsf_matrix = mat_mul (trsf_matrix a) (trsf_matrix b),
      trsf_loc = xyz_add (mat_vec (trsf_matrix a) (trsf_loc b)) (trsf_loc a)\<rparr>"

text \<open>
  \<^verbatim>\<open>SetValues\<close> with the coefficients \<^verbatim>\<open>OnReadInsert\<close> passes: a diagonal matrix and no
  translation. The kernel raises when the determinant is null. With three equal factors
  the kernel keeps exactly this map; with unequal factors it replaces the matrix by an
  orthogonal one of the same determinant, which this model does not follow.
\<close>

definition SetValues_diagonal :: "real \<Rightarrow> real \<Rightarrow> real \<Rightarrow> gp_Trsf option" where
  "SetValues_diagonal sx sy sz =
     (if sx * sy * sz = 0 then None
      else Some \<lparr>trsf_matrix = ((sx, 0, 0), (0, sy, 0), (0, 0, sz)), trsf_loc = (0, 0, 0)\<rparr>)"

text \<open>\<^verbatim>\<open>SetRotation(gp::OZ(), ang)\<close>: the rotation by \<open>ang\<close> radians about the Z axis.\<close>

definition SetRotation_OZ :: "real \<Rightarrow> gp_Trsf" where
  "SetRotation_OZ ang =
     \<lparr>trsf_matrix = ((cos ang, - sin ang, 0), (sin ang, cos ang, 0), (0, 0, 1)),
      trsf_loc = (0, 0, 0)\<rparr>"

definition SetTranslation :: "gp_XYZ \<Rightarrow> gp_Trsf" where
  "SetTranslation v = \<lparr>trsf_matrix = ((1, 0, 0), (0, 1, 0), (0, 0, 1)), trsf_loc = v\<rparr>"

subsection \<open>Shapes\<close>

text \<open>
  A \<^verbatim>\<open>TopoDS_Shape\<close> is the call of the kernel's builder that made it: a vertex at a point,
  an edge between two points, an edge on a circle between two points, an edge on an
  ellipse, an edge on a spline curve (a handle), or a compound of shapes with the
  location set on it.
\<close>

datatype TopoDS_Shape =
    Null_Shape
  | Vertex gp_Pnt
  | Edge_Line gp_Pnt gp_Pnt
  | Edge_Circ gp_Circ gp_Pnt gp_Pnt
  | Edge_Elips gp_Elips
  | Edge_Curve nat
  | Compound "TopoDS_Shape list" "gp_Trsf option"

text \<open>
  The kernel's edge builder on a circle between two points,
  \<^verbatim>\<open>BRepBuilderAPI_MakeEdge(circle, p, q)\<close>. It projects both points on the circle and is not
  done when one of them is not within the tolerance of the circle; converting a builder that
  is not done to an edge raises, which is \<open>None\<close>. \<open>distanceToCirc\<close> is the distance of a point
  from a circle whose axis has the Z direction, up or down, the only circles the reader
  makes.
\<close>

fun distanceToCirc :: "gp_Circ \<Rightarrow> gp_Pnt \<Rightarrow> real" where
  "distanceToCirc circle (x, y, z) =
     (case ax_location (circ_position circle) of
        (cx, cy, cz) \<Rightarrow>
          sqrt ((sqrt ((x - cx) * (x - cx) + (y - cy) * (y - cy)) - circ_radius circle)
                 * (sqrt ((x - cx) * (x - cx) + (y - cy) * (y - cy)) - circ_radius circle)
                + (z - cz) * (z - cz)))"

definition MakeEdge_Circ :: "gp_Circ \<Rightarrow> gp_Pnt \<Rightarrow> gp_Pnt \<Rightarrow> TopoDS_Shape option" where
  "MakeEdge_Circ circle p q =
     (if distanceToCirc circle p < Precision_Confusion
         \<and> distanceToCirc circle q < Precision_Confusion
      then Some (Edge_Circ circle p q) else None)"

fun IsNull :: "TopoDS_Shape \<Rightarrow> bool" where
  "IsNull Null_Shape = True"
| "IsNull (Vertex p) = False"
| "IsNull (Edge_Line p q) = False"
| "IsNull (Edge_Circ c p q) = False"
| "IsNull (Edge_Elips e) = False"
| "IsNull (Edge_Curve g) = False"
| "IsNull (Compound shapes l) = False"

subsection \<open>The reader\<close>

text \<open>
  The state of a \<^verbatim>\<open>DxfReader\<close> that the callbacks read and write. \<^verbatim>\<open>m_layers\<close> maps a layer
  name to the shapes accumulated for it; it is a list of entries with distinct keys,
  searched by key. \<open>LayerName\<close> is what \<^verbatim>\<open>LayerName()\<close> returns, the name of the layer being
  read. \<open>document\<close> holds the shapes of the features made by \<^verbatim>\<open>document->addObject\<close>.
\<close>

record DxfReader =
  m_layers :: "(string \<times> TopoDS_Shape list) list"
  m_groupLayers :: bool
  m_importAnnotations :: bool
  m_params_scaling :: real
  LayerName :: string
  document :: "TopoDS_Shape list"

fun toPnt :: "DxfReader \<Rightarrow> gp_XYZ \<Rightarrow> gp_Pnt" where
  "toPnt st (c0, c1, c2) =
     (if m_params_scaling st \<noteq> 1
      then (c0 * m_params_scaling st, c1 * m_params_scaling st, c2 * m_params_scaling st)
      else (c0, c1, c2))"

definition addShape :: "TopoDS_Shape \<Rightarrow> DxfReader \<Rightarrow> DxfReader" where
  "addShape shape st =
     (let layerName = LayerName st;
          st1 = (case map_of (m_layers st) layerName of
                   Some vecShape \<Rightarrow>
                     st\<lparr>m_layers := AList.update layerName (vecShape @ [shape]) (m_layers st)\<rparr>
                 | None \<Rightarrow> st)
      in if \<not> m_groupLayers st1 then
           (if take 6 (LayerName st1) \<noteq> ''BLOCKS''
            then st1\<lparr>document := document st1 @ [shape]\<rparr>
            else st1)
         else st1)"

definition OnReadLine :: "gp_XYZ \<Rightarrow> gp_XYZ \<Rightarrow> bool \<Rightarrow> DxfReader \<Rightarrow> DxfReader" where
  "OnReadLine s e hidden st =
     (let p0 = toPnt st s; p1 = toPnt st e
      in if IsEqual p0 p1 Precision_Confusion then st
         else addShape (Edge_Line p0 p1) st)"

definition OnReadPoint :: "gp_XYZ \<Rightarrow> DxfReader \<Rightarrow> DxfReader" where
  "OnReadPoint s st = addShape (Vertex (toPnt st s)) st"

definition OnReadText :: "gp_XYZ \<Rightarrow> real \<Rightarrow> string \<Rightarrow> DxfReader \<Rightarrow> DxfReader" where
  "OnReadText point height text st = (if m_importAnnotations st then st else st)"

text \<open>\<open>None\<close>: the exception of an edge builder that is not done leaves the callback.\<close>

definition OnReadArc ::
  "gp_XYZ \<Rightarrow> gp_XYZ \<Rightarrow> gp_XYZ \<Rightarrow> bool \<Rightarrow> bool \<Rightarrow> DxfReader \<Rightarrow> DxfReader option" where
  "OnReadArc s e c dir hidden st =
     (let p0 = toPnt st s; p1 = toPnt st e;
          up = (if dir then DZ else Reversed DZ);
          pc = toPnt st c;
          circle = \<lparr>circ_position = \<lparr>ax_location = pc, ax_direction = up\<rparr>,
                    circ_radius = Distance p0 pc\<rparr>
      in if Radius circle > 0 then
           (case MakeEdge_Circ circle p0 p1 of
              None \<Rightarrow> None
            | Some edge \<Rightarrow> Some (addShape edge st))
         else Some st)"

text \<open>
  \<^verbatim>\<open>OnReadCircle\<close> repeats the builder call of \<^verbatim>\<open>OnReadArc\<close>,
  \<^verbatim>\<open>BRepBuilderAPI_MakeEdge(circle, p0, p1)\<close>, and declares no \<^verbatim>\<open>p1\<close>. The name stands for
  nothing in the function; the point the builder would be given is the argument \<open>p1\<close>, so
  that what the call does can be stated for every point.
\<close>

definition OnReadCircle ::
  "gp_Pnt \<Rightarrow> gp_XYZ \<Rightarrow> gp_XYZ \<Rightarrow> bool \<Rightarrow> bool \<Rightarrow> DxfReader \<Rightarrow> DxfReader option" where
  "OnReadCircle p1 s c dir hidden st =
     (let p0 = toPnt st s;
          up = (if dir then DZ else Reversed DZ);
          pc = toPnt st c;
          circle = \<lparr>circ_position = \<lparr>ax_location = pc, ax_direction = up\<rparr>,
                    circ_radius = Distance p0 pc\<rparr>
      in if Radius circle > 0 then
           (case MakeEdge_Circ circle p0 p1 of
              None \<Rightarrow> None
            | Some edge \<Rightarrow> Some (addShape edge st))
         else Some st)"

text \<open>Here \<open>None\<close> is the exception of the ellipse's constructor.\<close>

definition OnReadEllipse ::
  "gp_XYZ \<Rightarrow> real \<Rightarrow> real \<Rightarrow> real \<Rightarrow> real \<Rightarrow> real \<Rightarrow> bool \<Rightarrow> DxfReader \<Rightarrow> DxfReader option" where
  "OnReadEllipse c major_radius minor_radius rotation start_angle end_angle dir st =
     (let up = (if dir then DZ else Reversed DZ);
          pc = toPnt st c
      in case gp_Elips_ctor \<lparr>ax_location = pc, ax_direction = up\<rparr>
                (major_radius * m_params_scaling st) (minor_radius * m_params_scaling st) of
           None \<Rightarrow> None
         | Some ellipse0 \<Rightarrow>
             (let ellipse = Rotate rotation ellipse0
              in if MinorRadius ellipse > 0 then Some (addShape (Edge_Elips ellipse) st)
                 else Some st))"

text \<open>
  The fields of \<^verbatim>\<open>SplineData\<close> that \<^verbatim>\<open>OnReadSpline\<close> itself reads. The curves are built by
  the kernel from the spline data: \<open>fromPoles\<close> and \<open>fromFit\<close> give the handle that
  \<^verbatim>\<open>createSplineFromPolesAndKnots\<close> and \<^verbatim>\<open>createInterpolationSpline\<close> return, \<open>None\<close>
  when the handle is null or the kernel throws \<^verbatim>\<open>Standard_Failure\<close>.
\<close>

record SplineData =
  control_points :: int
  fit_points :: int

definition OnReadSpline ::
  "(SplineData \<Rightarrow> nat option) \<Rightarrow> (SplineData \<Rightarrow> nat option) \<Rightarrow> SplineData \<Rightarrow>
   DxfReader \<Rightarrow> DxfReader" where
  "OnReadSpline fromPoles fromFit sd st =
     (let geom = (if control_points sd > 0 then fromPoles sd
                  else if fit_points sd > 0 then fromFit sd
                  else None)
      in case geom of
           None \<Rightarrow> st
         | Some g \<Rightarrow> addShape (Edge_Curve g) st)"

text \<open>
  \<^verbatim>\<open>OnReadInsert\<close>. \<open>insertTrsf\<close> is the transformation it builds:
  \<^verbatim>\<open>trsfScale * trsfRotZ * trsfMove\<close>. The loop runs over the entries of \<^verbatim>\<open>m_layers\<close>; the
  keys do not change while it runs, the shapes of the current layer may. \<open>None\<close>: the
  exception of \<^verbatim>\<open>SetValues\<close> leaves the callback.
\<close>

definition insertTrsf :: "DxfReader \<Rightarrow> gp_XYZ \<Rightarrow> gp_XYZ \<Rightarrow> real \<Rightarrow> gp_Trsf option" where
  "insertTrsf st point scale rotation =
     (case scale of (sx, sy, sz) \<Rightarrow>
        (case SetValues_diagonal sx sy sz of
           None \<Rightarrow> None
         | Some trsfScale \<Rightarrow>
             (let trsfRotZ = SetRotation_OZ rotation;
                  trsfMove = SetTranslation (toPnt st point)
              in Some (Multiplied (Multiplied trsfScale trsfRotZ) trsfMove))))"

fun OnReadInsert_loop ::
  "gp_XYZ \<Rightarrow> gp_XYZ \<Rightarrow> string \<Rightarrow> real \<Rightarrow> string list \<Rightarrow> DxfReader \<Rightarrow> DxfReader option" where
  "OnReadInsert_loop point scale prefix rotation [] st = Some st"
| "OnReadInsert_loop point scale prefix rotation (k # ks) st =
     (if take (length prefix) k \<noteq> prefix
      then OnReadInsert_loop point scale prefix rotation ks st
      else
        (let vecShape = (case map_of (m_layers st) k of Some v \<Rightarrow> v | None \<Rightarrow> []);
             comp = Compound (filter (\<lambda>shape. \<not> IsNull shape) vecShape) None
         in if IsNull comp then OnReadInsert_loop point scale prefix rotation ks st
            else
              (case insertTrsf st point scale rotation of
                 None \<Rightarrow> None
               | Some trsf \<Rightarrow>
                   OnReadInsert_loop point scale prefix rotation ks
                     (addShape (Compound (filter (\<lambda>shape. \<not> IsNull shape) vecShape) (Some trsf)) st))))"

definition OnReadInsert ::
  "gp_XYZ \<Rightarrow> gp_XYZ \<Rightarrow> string \<Rightarrow> real \<Rightarrow> DxfReader \<Rightarrow> DxfReader option" where
  "OnReadInsert point scale name rotation st =
     (let prefix = ''BLOCKS '' @ name @ '' ''
      in OnReadInsert_loop point scale prefix rotation (map fst (m_layers st)) st)"

definition OnReadDimension ::
  "gp_XYZ \<Rightarrow> gp_XYZ \<Rightarrow> gp_XYZ \<Rightarrow> real \<Rightarrow> DxfReader \<Rightarrow> DxfReader" where
  "OnReadDimension s e point rotation st = st"

text \<open>
  The order the spec gives for a block insert, on a point of the block: "scale, rotate,
  translate, in that fixed order", the translation being to the insertion point.
\<close>

fun scaleRotateTranslate :: "gp_XYZ \<Rightarrow> real \<Rightarrow> gp_Pnt \<Rightarrow> gp_Pnt \<Rightarrow> gp_Pnt" where
  "scaleRotateTranslate (sx, sy, sz) rotation insertion (x, y, z) =
     xyz_add
       (cos rotation * (sx * x) - sin rotation * (sy * y),
        sin rotation * (sx * x) + cos rotation * (sy * y),
        sz * z)
       insertion"

text \<open>Where a located compound puts the vertices among its children.\<close>

fun placedVertices :: "TopoDS_Shape \<Rightarrow> gp_Pnt list" where
  "placedVertices (Compound shapes (Some trsf)) =
     concat (map (\<lambda>sh. case sh of Vertex p \<Rightarrow> [Transforms trsf p] | _ \<Rightarrow> []) shapes)"
| "placedVertices (Compound shapes None) =
     concat (map (\<lambda>sh. case sh of Vertex p \<Rightarrow> [p] | _ \<Rightarrow> []) shapes)"
| "placedVertices (Vertex p) = [p]"
| "placedVertices sh = []"

section \<open>Properties of the write protocol\<close>

lemma valid_iff_Ok: "valid r = (r = Ok)"
  by (cases r) simp_all

text \<open>
  The three ways through \<open>setValueHelper\<close>. The rollback restores the whole object when the
  pointer's writer undoes itself, as a member's does.
\<close>

lemma setValueHelper_rejected:
  assumes "hasGroup (obj w)" and "\<not> valid (isValid (put newValue (obj w)))"
    and "put (get (obj w)) (put newValue (obj w)) = obj w"
  shows "setValueHelper isValid get put newValue w =
           (isValid (put newValue (obj w)), w\<lparr>calls := calls w @ [Call_isValid]\<rparr>)"
  using assms by (simp add: setValueHelper_def Let_def)

lemma setValueHelper_accepted:
  assumes "hasGroup (obj w)" and "valid (isValid (put newValue (obj w)))"
  shows "setValueHelper isValid get put newValue w =
           (Ok, \<lparr>obj = put newValue (obj w),
                 calls = calls w @ [Call_isValid, Call_notifyChanged]\<rparr>)"
  using assms by (simp add: setValueHelper_def Let_def notifyChanged_def valid_iff_Ok)

lemma setValueHelper_no_group:
  assumes "\<not> hasGroup (obj w)"
  shows "setValueHelper isValid get put newValue w =
           (Ok, \<lparr>obj = put newValue (obj w), calls = calls w @ [Call_notifyChanged]\<rparr>)"
  using assms by (simp add: setValueHelper_def notifyChanged_def)

text \<open>
  C1. A write to a property that has an owning group either is rejected, and then the
  object is what it was before the call (so the stored value is the previous one), the
  result is the validation's failure, and \<open>notifyChanged\<close> is not called; or it is accepted,
  and then the new value is stored, the result is \<open>Ok\<close> and \<open>notifyChanged\<close> is called once,
  after the validation. This holds for \<open>setValue\<close>, for \<open>setQuantity\<close>, and for
  \<open>setValueFromVariant\<close>, which writes through \<open>setValue\<close> (through \<open>setQuantity\<close> for a
  quantity property) whenever it writes.
\<close>

theorem C1_write_protocol_atomic:
  "(hasGroup (obj w) \<and> \<not> valid (isValid ((obj w)\<lparr>m_value := val\<rparr>)) \<longrightarrow>
      setValue isValid val w =
        (isValid ((obj w)\<lparr>m_value := val\<rparr>), w\<lparr>calls := calls w @ [Call_isValid]\<rparr>))
   \<and> (hasGroup (obj w) \<and> valid (isValid ((obj w)\<lparr>m_value := val\<rparr>)) \<longrightarrow>
      setValue isValid val w =
        (Ok, \<lparr>obj = (obj w)\<lparr>m_value := val\<rparr>,
              calls = calls w @ [Call_isValid, Call_notifyChanged]\<rparr>))
   \<and> (canConvert variant \<longrightarrow>
      setValueFromVariant canConvert value_of isValid variant w =
        setValue isValid (value_of variant) w)
   \<and> (hasGroup (obj wq) \<and> \<not> valid (isValidq ((obj wq)\<lparr>m_quantity := qty\<rparr>)) \<longrightarrow>
      setQuantity isValidq qty wq =
        (isValidq ((obj wq)\<lparr>m_quantity := qty\<rparr>), wq\<lparr>calls := calls wq @ [Call_isValid]\<rparr>))
   \<and> (hasGroup (obj wq) \<and> valid (isValidq ((obj wq)\<lparr>m_quantity := qty\<rparr>)) \<longrightarrow>
      setQuantity isValidq qty wq =
        (Ok, \<lparr>obj = (obj wq)\<lparr>m_quantity := qty\<rparr>,
              calls = calls wq @ [Call_isValid, Call_notifyChanged]\<rparr>))
   \<and> (canConvert_Quantity (UNIT (obj wq)) variantq \<longrightarrow>
      Quantity_setValueFromVariant isValidq variantq wq =
        setQuantity isValidq (value_Quantity (UNIT (obj wq)) variantq) wq)"
proof (intro conjI impI)
  assume "hasGroup (obj w) \<and> \<not> valid (isValid ((obj w)\<lparr>m_value := val\<rparr>))"
  then show "setValue isValid val w =
        (isValid ((obj w)\<lparr>m_value := val\<rparr>), w\<lparr>calls := calls w @ [Call_isValid]\<rparr>)"
    by (simp add: setValue_def setValueHelper_rejected)
next
  assume "hasGroup (obj w) \<and> valid (isValid ((obj w)\<lparr>m_value := val\<rparr>))"
  then show "setValue isValid val w =
        (Ok, \<lparr>obj = (obj w)\<lparr>m_value := val\<rparr>,
              calls = calls w @ [Call_isValid, Call_notifyChanged]\<rparr>)"
    by (simp add: setValue_def setValueHelper_accepted)
next
  assume "canConvert variant"
  then show "setValueFromVariant canConvert value_of isValid variant w =
        setValue isValid (value_of variant) w"
    by (simp add: setValueFromVariant_def)
next
  assume "hasGroup (obj wq) \<and> \<not> valid (isValidq ((obj wq)\<lparr>m_quantity := qty\<rparr>))"
  then show "setQuantity isValidq qty wq =
        (isValidq ((obj wq)\<lparr>m_quantity := qty\<rparr>), wq\<lparr>calls := calls wq @ [Call_isValid]\<rparr>)"
    by (simp add: setQuantity_def setValueHelper_rejected)
next
  assume "hasGroup (obj wq) \<and> valid (isValidq ((obj wq)\<lparr>m_quantity := qty\<rparr>))"
  then show "setQuantity isValidq qty wq =
        (Ok, \<lparr>obj = (obj wq)\<lparr>m_quantity := qty\<rparr>,
              calls = calls wq @ [Call_isValid, Call_notifyChanged]\<rparr>)"
    by (simp add: setQuantity_def setValueHelper_accepted)
next
  assume "canConvert_Quantity (UNIT (obj wq)) variantq"
  then show "Quantity_setValueFromVariant isValidq variantq wq =
        setQuantity isValidq (value_Quantity (UNIT (obj wq)) variantq) wq"
    by (simp add: Quantity_setValueFromVariant_def)
qed

text \<open>
  The scenario of a value in the range 0 to 100: writing 150 is rejected and 50 stays,
  writing 75 is accepted and notified once.
\<close>

theorem C1_write_protocol_atomic_witness:
  "setValue (\<lambda>p. if 0 \<le> m_value p \<and> m_value p \<le> 100 then Ok else Error ''out of range'')
      (150 :: int)
      \<lparr>obj = \<lparr>m_group = Some 0, m_name = ''percent'', m_description = [],
               m_isUserReadOnly = False, m_isUserVisible = True, m_isEnabled = True,
               m_value = 50\<rparr>, calls = []\<rparr>
    = (Error ''out of range'',
       \<lparr>obj = \<lparr>m_group = Some 0, m_name = ''percent'', m_description = [],
               m_isUserReadOnly = False, m_isUserVisible = True, m_isEnabled = True,
               m_value = 50\<rparr>, calls = [Call_isValid]\<rparr>)
   \<and> setValue (\<lambda>p. if 0 \<le> m_value p \<and> m_value p \<le> 100 then Ok else Error ''out of range'')
      (75 :: int)
      \<lparr>obj = \<lparr>m_group = Some 0, m_name = ''percent'', m_description = [],
               m_isUserReadOnly = False, m_isUserVisible = True, m_isEnabled = True,
               m_value = 50\<rparr>, calls = []\<rparr>
    = (Ok,
       \<lparr>obj = \<lparr>m_group = Some 0, m_name = ''percent'', m_description = [],
               m_isUserReadOnly = False, m_isUserVisible = True, m_isEnabled = True,
               m_value = 75\<rparr>, calls = [Call_isValid, Call_notifyChanged]\<rparr>)
   \<and> setQuantity (\<lambda>p. checkScalarConstraints (quantityConstraints p) (quantityValue p)) 150
      \<lparr>obj = \<lparr>m_group = Some 0, m_name = ''width'', m_description = [],
               m_isUserReadOnly = False, m_isUserVisible = True, m_isEnabled = True,
               quantityConstraints = PropertyScalarConstraints_ctor 0 100 1,
               UNIT = Length, m_quantity = 50\<rparr>, calls = []\<rparr>
    = (Error ''Value out of range'',
       \<lparr>obj = \<lparr>m_group = Some 0, m_name = ''width'', m_description = [],
               m_isUserReadOnly = False, m_isUserVisible = True, m_isEnabled = True,
               quantityConstraints = PropertyScalarConstraints_ctor 0 100 1,
               UNIT = Length, m_quantity = 50\<rparr>, calls = [Call_isValid]\<rparr>)
   \<and> setQuantity (\<lambda>p. checkScalarConstraints (quantityConstraints p) (quantityValue p)) 75
      \<lparr>obj = \<lparr>m_group = Some 0, m_name = ''width'', m_description = [],
               m_isUserReadOnly = False, m_isUserVisible = True, m_isEnabled = True,
               quantityConstraints = PropertyScalarConstraints_ctor 0 100 1,
               UNIT = Length, m_quantity = 50\<rparr>, calls = []\<rparr>
    = (Ok,
       \<lparr>obj = \<lparr>m_group = Some 0, m_name = ''width'', m_description = [],
               m_isUserReadOnly = False, m_isUserVisible = True, m_isEnabled = True,
               quantityConstraints = PropertyScalarConstraints_ctor 0 100 1,
               UNIT = Length, m_quantity = 75\<rparr>, calls = [Call_isValid, Call_notifyChanged]\<rparr>)
   \<and> setValueFromVariant (\<lambda>v. v \<noteq> None) (\<lambda>v. case v of Some n \<Rightarrow> n | None \<Rightarrow> 0)
      (\<lambda>p. if 0 \<le> m_value p \<and> m_value p \<le> 100 then Ok else Error ''out of range'')
      (Some (150 :: int))
      \<lparr>obj = \<lparr>m_group = Some 0, m_name = ''percent'', m_description = [],
               m_isUserReadOnly = False, m_isUserVisible = True, m_isEnabled = True,
               m_value = 50\<rparr>, calls = []\<rparr>
    = (Error ''out of range'',
       \<lparr>obj = \<lparr>m_group = Some 0, m_name = ''percent'', m_description = [],
               m_isUserReadOnly = False, m_isUserVisible = True, m_isEnabled = True,
               m_value = 50\<rparr>, calls = [Call_isValid]\<rparr>)
   \<and> Quantity_setValueFromVariant
      (\<lambda>p. checkScalarConstraints (quantityConstraints p) (quantityValue p))
      (QVariant_Quantity Length 150 :: unit QVariant)
      \<lparr>obj = \<lparr>m_group = Some 0, m_name = ''width'', m_description = [],
               m_isUserReadOnly = False, m_isUserVisible = True, m_isEnabled = True,
               quantityConstraints = PropertyScalarConstraints_ctor 0 100 1,
               UNIT = Length, m_quantity = 50\<rparr>, calls = []\<rparr>
    = (Error ''Value out of range'',
       \<lparr>obj = \<lparr>m_group = Some 0, m_name = ''width'', m_description = [],
               m_isUserReadOnly = False, m_isUserVisible = True, m_isEnabled = True,
               quantityConstraints = PropertyScalarConstraints_ctor 0 100 1,
               UNIT = Length, m_quantity = 50\<rparr>, calls = [Call_isValid]\<rparr>)"
proof -
  let ?iv = "\<lambda>p :: int GenericProperty.
      if 0 \<le> m_value p \<and> m_value p \<le> 100 then Ok else Error ''out of range''"
  let ?w = "\<lparr>obj = \<lparr>m_group = Some 0, m_name = ''percent'', m_description = [],
               m_isUserReadOnly = False, m_isUserVisible = True, m_isEnabled = True,
               m_value = (50 :: int)\<rparr>, calls = []\<rparr>"
  let ?ivq = "\<lambda>p. checkScalarConstraints (quantityConstraints p) (quantityValue p)"
  let ?wq = "\<lparr>obj = \<lparr>m_group = Some 0, m_name = ''width'', m_description = [],
               m_isUserReadOnly = False, m_isUserVisible = True, m_isEnabled = True,
               quantityConstraints = PropertyScalarConstraints_ctor 0 100 1,
               UNIT = Length, m_quantity = 50\<rparr>, calls = []\<rparr>"
  let ?cc = "\<lambda>v :: int option. v \<noteq> None"
  let ?vo = "\<lambda>v :: int option. case v of Some n \<Rightarrow> n | None \<Rightarrow> 0"
  note c = checkScalarConstraints_def quantityValue_def quantity_def
    PropertyScalarConstraints_ctor_def constraintsEnabled_def minimum_def maximum_def
  have 1: "setValue ?iv 150 ?w
      = (?iv ((obj ?w)\<lparr>m_value := 150\<rparr>), ?w\<lparr>calls := calls ?w @ [Call_isValid]\<rparr>)"
    by (rule C1_write_protocol_atomic[where w = ?w and isValid = ?iv and val = 150,
          THEN conjunct1, THEN mp]) (simp add: hasGroup_def)
  have 2: "setValue ?iv 75 ?w
      = (Ok, \<lparr>obj = (obj ?w)\<lparr>m_value := 75\<rparr>,
               calls = calls ?w @ [Call_isValid, Call_notifyChanged]\<rparr>)"
    by (rule C1_write_protocol_atomic[where w = ?w and isValid = ?iv and val = 75,
          THEN conjunct2, THEN conjunct1, THEN mp]) (simp add: hasGroup_def)
  have 3: "setValueFromVariant ?cc ?vo ?iv (Some 150) ?w = setValue ?iv (?vo (Some 150)) ?w"
    by (rule C1_write_protocol_atomic[where w = ?w and isValid = ?iv and canConvert = ?cc
            and value_of = ?vo and variant = "Some 150",
          THEN conjunct2, THEN conjunct2, THEN conjunct1, THEN mp]) simp
  have 4: "setQuantity ?ivq 150 ?wq
      = (?ivq ((obj ?wq)\<lparr>m_quantity := 150\<rparr>), ?wq\<lparr>calls := calls ?wq @ [Call_isValid]\<rparr>)"
    by (rule C1_write_protocol_atomic[where wq = ?wq and isValidq = ?ivq and qty = 150,
          THEN conjunct2, THEN conjunct2, THEN conjunct2, THEN conjunct1, THEN mp])
      (simp add: hasGroup_def c)
  have 5: "setQuantity ?ivq 75 ?wq
      = (Ok, \<lparr>obj = (obj ?wq)\<lparr>m_quantity := 75\<rparr>,
               calls = calls ?wq @ [Call_isValid, Call_notifyChanged]\<rparr>)"
    by (rule C1_write_protocol_atomic[where wq = ?wq and isValidq = ?ivq and qty = 75,
          THEN conjunct2, THEN conjunct2, THEN conjunct2, THEN conjunct2, THEN conjunct1,
          THEN mp])
      (simp add: hasGroup_def c)
  have 6: "Quantity_setValueFromVariant ?ivq (QVariant_Quantity Length 150 :: unit QVariant) ?wq
      = setQuantity ?ivq (value_Quantity (UNIT (obj ?wq)) (QVariant_Quantity Length 150 :: unit QVariant)) ?wq"
    by (rule C1_write_protocol_atomic[where wq = ?wq and isValidq = ?ivq
            and variantq = "QVariant_Quantity Length 150",
          THEN conjunct2, THEN conjunct2, THEN conjunct2, THEN conjunct2, THEN conjunct2,
          THEN mp])
      simp
  have convq: "Quantity_setValueFromVariant ?ivq (QVariant_Quantity Length 150 :: unit QVariant) ?wq
      = setQuantity ?ivq 150 ?wq"
    using 6 by simp
  have conv: "setValueFromVariant ?cc ?vo ?iv (Some 150) ?w = setValue ?iv 150 ?w"
    using 3 by simp
  show ?thesis
    unfolding conv convq 1 2 4 5 by (simp add: c)
qed

section \<open>Properties of nested blockers\<close>

lemma enterBlockers_blocked:
  "isPropertyChangedBlocked (h a) \<Longrightarrow>
     enterBlockers n (Some a) h = (replicate n \<lparr>blocker_m_group = None\<rparr>, h)"
proof (induction n)
  case 0
  then show ?case by simp
next
  case (Suc n)
  then show ?case
    by (simp add: PropertyChangedBlocker_ctor_def replicate_append_same)
qed

lemma leaveBlockers_none:
  "leaveBlockers (replicate k \<lparr>blocker_m_group = None\<rparr>) h = h"
  by (induction k) (simp_all add: PropertyChangedBlocker_dtor_def)

lemma leaveBlockers_append:
  "leaveBlockers (bs @ cs) h = leaveBlockers cs (leaveBlockers bs h)"
  by (induction bs arbitrary: h) simp_all

text \<open>
  C2. Enter \<open>n + 1\<close> nested blocked scopes on a group (two for \<open>n = 1\<close>). Inside, the
  group is blocked. After leaving any number of the inner scopes, up to all \<open>n\<close> of them,
  the group is still blocked. After leaving the outermost scope too, the store is exactly
  the one that held before the outermost blocker was made, so the group is blocked or not
  as it was then: whatever the depth, only leaving the outermost scope can unblock.
\<close>

theorem C2_nested_blockers_restore:
  "isPropertyChangedBlocked (snd (enterBlockers (Suc n) (Some a) h) a)
   \<and> (\<forall>k\<le>n. isPropertyChangedBlocked
          (leaveBlockers (take k (fst (enterBlockers (Suc n) (Some a) h)))
             (snd (enterBlockers (Suc n) (Some a) h)) a))
   \<and> leaveBlockers (fst (enterBlockers (Suc n) (Some a) h))
        (snd (enterBlockers (Suc n) (Some a) h)) = h"
proof (cases "isPropertyChangedBlocked (h a)")
  case True
  have e: "enterBlockers (Suc n) (Some a) h = (replicate (Suc n) \<lparr>blocker_m_group = None\<rparr>, h)"
    using True by (rule enterBlockers_blocked[where h = h and a = a])
  show ?thesis
    unfolding e using True by (simp add: leaveBlockers_none del: replicate_Suc)
next
  case False
  define h1 where "h1 = h(a := blockPropertyChanged True (h a))"
  have b1: "isPropertyChangedBlocked (h1 a)"
    by (simp add: h1_def blockPropertyChanged_def isPropertyChangedBlocked_def)
  have c: "PropertyChangedBlocker_ctor (Some a) h = (\<lparr>blocker_m_group = Some a\<rparr>, h1)"
    using False by (simp add: PropertyChangedBlocker_ctor_def h1_def)
  have e: "enterBlockers (Suc n) (Some a) h
      = (replicate n \<lparr>blocker_m_group = None\<rparr> @ [\<lparr>blocker_m_group = Some a\<rparr>], h1)"
    using enterBlockers_blocked[where h = h1 and a = a and n = n, OF b1] by (simp add: c)
  have same: "(h a)\<lparr>m_propertyChangedBlocked := False\<rparr> = h a"
    using False by (cases "h a") (simp add: isPropertyChangedBlocked_def)
  have undo: "PropertyChangedBlocker_dtor \<lparr>blocker_m_group = Some a\<rparr> h1 = h"
    by (simp add: PropertyChangedBlocker_dtor_def h1_def blockPropertyChanged_def same)
  have inner: "leaveBlockers
        (take k (replicate n \<lparr>blocker_m_group = None\<rparr> @ [\<lparr>blocker_m_group = Some a\<rparr>])) h1
      = h1" if "k \<le> n" for k
    using that by (simp add: leaveBlockers_none)
  show ?thesis
    unfolding e by (simp add: b1 inner leaveBlockers_append leaveBlockers_none undo)
qed

text \<open>
  Two nested blockers on a group that is not blocked: blocked inside, still blocked after
  the inner blocker is destroyed, and the store of before after the outer one is.
\<close>

theorem C2_nested_blockers_restore_witness:
  "isPropertyChangedBlocked
     (snd (enterBlockers (Suc (Suc 0)) (Some 0) (\<lambda>a. PropertyGroup_ctor None)) 0)
   \<and> isPropertyChangedBlocked
       (leaveBlockers
          (take (Suc 0) (fst (enterBlockers (Suc (Suc 0)) (Some 0) (\<lambda>a. PropertyGroup_ctor None))))
          (snd (enterBlockers (Suc (Suc 0)) (Some 0) (\<lambda>a. PropertyGroup_ctor None))) 0)
   \<and> leaveBlockers (fst (enterBlockers (Suc (Suc 0)) (Some 0) (\<lambda>a. PropertyGroup_ctor None)))
        (snd (enterBlockers (Suc (Suc 0)) (Some 0) (\<lambda>a. PropertyGroup_ctor None)))
      = (\<lambda>a. PropertyGroup_ctor None)
   \<and> \<not> isPropertyChangedBlocked (PropertyGroup_ctor None)
   \<and> fst (enterBlockers (Suc (Suc 0)) (Some 0) (\<lambda>a. PropertyGroup_ctor None))
      = [\<lparr>blocker_m_group = None\<rparr>, \<lparr>blocker_m_group = Some 0\<rparr>]"
proof -
  note t = C2_nested_blockers_restore[of "Suc 0" 0 "\<lambda>a. PropertyGroup_ctor None"]
  have 1: "isPropertyChangedBlocked
     (snd (enterBlockers (Suc (Suc 0)) (Some 0) (\<lambda>a. PropertyGroup_ctor None)) 0)"
    by (rule t[THEN conjunct1])
  have 2: "isPropertyChangedBlocked
       (leaveBlockers
          (take (Suc 0) (fst (enterBlockers (Suc (Suc 0)) (Some 0) (\<lambda>a. PropertyGroup_ctor None))))
          (snd (enterBlockers (Suc (Suc 0)) (Some 0) (\<lambda>a. PropertyGroup_ctor None))) 0)"
    by (rule t[THEN conjunct2, THEN conjunct1, THEN spec, THEN mp]) simp
  have 3: "leaveBlockers (fst (enterBlockers (Suc (Suc 0)) (Some 0) (\<lambda>a. PropertyGroup_ctor None)))
        (snd (enterBlockers (Suc (Suc 0)) (Some 0) (\<lambda>a. PropertyGroup_ctor None)))
      = (\<lambda>a. PropertyGroup_ctor None)"
    by (rule t[THEN conjunct2, THEN conjunct2])
  have 4: "\<not> isPropertyChangedBlocked (PropertyGroup_ctor None)"
    by (simp add: isPropertyChangedBlocked_def PropertyGroup_ctor_def)
  have 5: "fst (enterBlockers (Suc (Suc 0)) (Some 0) (\<lambda>a. PropertyGroup_ctor None))
      = [\<lparr>blocker_m_group = None\<rparr>, \<lparr>blocker_m_group = Some 0\<rparr>]"
    by (simp add: PropertyChangedBlocker_ctor_def isPropertyChangedBlocked_def
        PropertyGroup_ctor_def blockPropertyChanged_def)
  show ?thesis
    using 1 2 3 4 5 by (simp only: simp_thms)
qed

section \<open>Properties of the variant conversions\<close>

text \<open>
  C3. \<open>setValueFromVariant\<close> on a variant that cannot be converted returns the failure
  "Incompatible type" and changes nothing, neither the object nor the calls; it succeeds
  only on a variant that can be converted, and then it is \<open>setValue\<close> of the converted
  value. Boxing has no failure: \<open>valueAsVariant\<close> is \<open>fromValue\<close> of the stored value.
\<close>

theorem C3_variant_unboxing:
  "(\<not> canConvert variant \<longrightarrow>
      setValueFromVariant canConvert value_of isValid variant w = (Error ''Incompatible type'', w))
   \<and> (valid (fst (setValueFromVariant canConvert value_of isValid variant w)) \<longrightarrow>
        canConvert variant)
   \<and> (canConvert variant \<longrightarrow>
        setValueFromVariant canConvert value_of isValid variant w =
          setValue isValid (value_of variant) w)
   \<and> valueAsVariant fromValue prop = fromValue (m_value prop)"
  by (simp add: setValueFromVariant_def valueAsVariant_def value_def)

text \<open>
  An integer property and variants that box an integer (\<open>QVariant_Other\<close>) or a length: the
  length is refused, the integer is written.
\<close>

theorem C3_variant_unboxing_witness:
  "setValueFromVariant (\<lambda>v. case v of QVariant_Other n \<Rightarrow> True | _ \<Rightarrow> False)
      (\<lambda>v. case v of QVariant_Other n \<Rightarrow> n | _ \<Rightarrow> 0)
      (\<lambda>p. Ok) (QVariant_Quantity Length 7)
      \<lparr>obj = \<lparr>m_group = Some 0, m_name = ''count'', m_description = [],
               m_isUserReadOnly = False, m_isUserVisible = True, m_isEnabled = True,
               m_value = (50 :: int)\<rparr>, calls = []\<rparr>
    = (Error ''Incompatible type'',
       \<lparr>obj = \<lparr>m_group = Some 0, m_name = ''count'', m_description = [],
               m_isUserReadOnly = False, m_isUserVisible = True, m_isEnabled = True,
               m_value = 50\<rparr>, calls = []\<rparr>)
   \<and> setValueFromVariant (\<lambda>v. case v of QVariant_Other n \<Rightarrow> True | _ \<Rightarrow> False)
      (\<lambda>v. case v of QVariant_Other n \<Rightarrow> n | _ \<Rightarrow> 0)
      (\<lambda>p. Ok) (QVariant_Other 7)
      \<lparr>obj = \<lparr>m_group = Some 0, m_name = ''count'', m_description = [],
               m_isUserReadOnly = False, m_isUserVisible = True, m_isEnabled = True,
               m_value = (50 :: int)\<rparr>, calls = []\<rparr>
    = (Ok,
       \<lparr>obj = \<lparr>m_group = Some 0, m_name = ''count'', m_description = [],
               m_isUserReadOnly = False, m_isUserVisible = True, m_isEnabled = True,
               m_value = 7\<rparr>, calls = [Call_isValid, Call_notifyChanged]\<rparr>)"
proof -
  let ?cc = "\<lambda>v :: int QVariant. case v of QVariant_Other n \<Rightarrow> True | _ \<Rightarrow> False"
  let ?vo = "\<lambda>v :: int QVariant. case v of QVariant_Other n \<Rightarrow> n | _ \<Rightarrow> 0"
  let ?iv = "\<lambda>p :: int GenericProperty. Ok"
  let ?w = "\<lparr>obj = \<lparr>m_group = Some 0, m_name = ''count'', m_description = [],
               m_isUserReadOnly = False, m_isUserVisible = True, m_isEnabled = True,
               m_value = (50 :: int)\<rparr>, calls = []\<rparr>"
  have a: "setValueFromVariant ?cc ?vo ?iv (QVariant_Quantity Length 7) ?w
             = (Error ''Incompatible type'', ?w)"
    by (rule C3_variant_unboxing[of ?cc "QVariant_Quantity Length 7" ?vo ?iv ?w,
          THEN conjunct1, THEN mp]) simp
  have b: "setValueFromVariant ?cc ?vo ?iv (QVariant_Other 7) ?w
             = setValue ?iv (?vo (QVariant_Other 7)) ?w"
    by (rule C3_variant_unboxing[of ?cc "QVariant_Other 7" ?vo ?iv ?w,
          THEN conjunct2, THEN conjunct2, THEN conjunct1, THEN mp]) simp
  have c: "setValue ?iv (?vo (QVariant_Other 7)) ?w
             = (Ok, \<lparr>obj = \<lparr>m_group = Some 0, m_name = ''count'', m_description = [],
                  m_isUserReadOnly = False, m_isUserVisible = True, m_isEnabled = True,
                  m_value = 7\<rparr>, calls = [Call_isValid, Call_notifyChanged]\<rparr>)"
    by (simp add: setValue_def setValueHelper_def hasGroup_def notifyChanged_def)
  show ?thesis
    using a b c by (simp only:)
qed

text \<open>
  C4, amended. The variant of a quantity property holds its unit and its magnitude. Written
  to a property of the same unit, the variant is converted and the write goes through the
  write protocol: when the receiving property has no group or its validation accepts the
  quantity, the write succeeds and the receiver has the unit and the magnitude of the
  source; when its validation rejects the quantity, the write fails and the receiver is
  what it was.
\<close>

theorem C4_quantity_variant_roundtrip:
  assumes "UNIT (obj w) = UNIT src"
  shows "variantUnit (Quantity_valueAsVariant src) = Some (quantityUnit src)
    \<and> variantMagnitude (Quantity_valueAsVariant src) = Some (quantity src)
    \<and> (\<not> hasGroup (obj w) \<or> valid (isValid ((obj w)\<lparr>m_quantity := quantity src\<rparr>)) \<longrightarrow>
         valid (fst (Quantity_setValueFromVariant isValid (Quantity_valueAsVariant src) w))
         \<and> quantity (obj (snd (Quantity_setValueFromVariant isValid
               (Quantity_valueAsVariant src) w))) = quantity src
         \<and> quantityUnit (obj (snd (Quantity_setValueFromVariant isValid
               (Quantity_valueAsVariant src) w))) = quantityUnit src)
    \<and> (hasGroup (obj w) \<and> \<not> valid (isValid ((obj w)\<lparr>m_quantity := quantity src\<rparr>)) \<longrightarrow>
         \<not> valid (fst (Quantity_setValueFromVariant isValid (Quantity_valueAsVariant src) w))
         \<and> obj (snd (Quantity_setValueFromVariant isValid (Quantity_valueAsVariant src) w))
             = obj w)"
proof -
  have box: "Quantity_valueAsVariant src = QVariant_Quantity (UNIT src) (m_quantity src)"
    by (simp add: Quantity_valueAsVariant_def fromValue_Quantity_def quantity_def)
  have unbox: "Quantity_setValueFromVariant isValid (QVariant_Quantity (UNIT src) (m_quantity src)) w
      = setValueHelper isValid m_quantity (\<lambda>v prop. prop\<lparr>m_quantity := v\<rparr>) (m_quantity src) w"
    using assms by (simp add: Quantity_setValueFromVariant_def setQuantity_def)
  show ?thesis
  proof (cases "hasGroup (obj w)")
    case False
    then show ?thesis
      using assms
      by (simp add: box unbox setValueHelper_no_group quantity_def quantityUnit_def)
  next
    case True
    show ?thesis
    proof (cases "valid (isValid ((obj w)\<lparr>m_quantity := m_quantity src\<rparr>))")
      case v: True
      show ?thesis
        using assms True v
        by (simp add: box unbox setValueHelper_accepted quantity_def quantityUnit_def)
    next
      case v: False
      show ?thesis
        using assms True v
        by (simp add: box unbox setValueHelper_rejected quantity_def quantityUnit_def)
    qed
  qed
qed

text \<open>
  A length of 5 written to a length property whose range 0 to 100 accepts it.
\<close>

theorem C4_quantity_variant_roundtrip_witness:
  "valid (fst (Quantity_setValueFromVariant
       (\<lambda>p. checkScalarConstraints (quantityConstraints p) (quantityValue p))
       (Quantity_valueAsVariant
          \<lparr>m_group = None, m_name = ''source'', m_description = [],
           m_isUserReadOnly = False, m_isUserVisible = True, m_isEnabled = True,
           quantityConstraints = PropertyScalarConstraints_default 0 0 0,
           UNIT = Length, m_quantity = 5\<rparr> :: unit QVariant)
       \<lparr>obj = \<lparr>m_group = Some 0, m_name = ''target'', m_description = [],
               m_isUserReadOnly = False, m_isUserVisible = True, m_isEnabled = True,
               quantityConstraints = PropertyScalarConstraints_ctor 0 100 1,
               UNIT = Length, m_quantity = 0\<rparr>, calls = []\<rparr>))
   \<and> quantity (obj (snd (Quantity_setValueFromVariant
       (\<lambda>p. checkScalarConstraints (quantityConstraints p) (quantityValue p))
       (Quantity_valueAsVariant
          \<lparr>m_group = None, m_name = ''source'', m_description = [],
           m_isUserReadOnly = False, m_isUserVisible = True, m_isEnabled = True,
           quantityConstraints = PropertyScalarConstraints_default 0 0 0,
           UNIT = Length, m_quantity = 5\<rparr> :: unit QVariant)
       \<lparr>obj = \<lparr>m_group = Some 0, m_name = ''target'', m_description = [],
               m_isUserReadOnly = False, m_isUserVisible = True, m_isEnabled = True,
               quantityConstraints = PropertyScalarConstraints_ctor 0 100 1,
               UNIT = Length, m_quantity = 0\<rparr>, calls = []\<rparr>))) = 5
   \<and> quantityUnit (obj (snd (Quantity_setValueFromVariant
       (\<lambda>p. checkScalarConstraints (quantityConstraints p) (quantityValue p))
       (Quantity_valueAsVariant
          \<lparr>m_group = None, m_name = ''source'', m_description = [],
           m_isUserReadOnly = False, m_isUserVisible = True, m_isEnabled = True,
           quantityConstraints = PropertyScalarConstraints_default 0 0 0,
           UNIT = Length, m_quantity = 5\<rparr> :: unit QVariant)
       \<lparr>obj = \<lparr>m_group = Some 0, m_name = ''target'', m_description = [],
               m_isUserReadOnly = False, m_isUserVisible = True, m_isEnabled = True,
               quantityConstraints = PropertyScalarConstraints_ctor 0 100 1,
               UNIT = Length, m_quantity = 0\<rparr>, calls = []\<rparr>))) = Length"
proof -
  let ?iv = "\<lambda>p. checkScalarConstraints (quantityConstraints p) (quantityValue p)"
  let ?src = "\<lparr>m_group = None, m_name = ''source'', m_description = [],
           m_isUserReadOnly = False, m_isUserVisible = True, m_isEnabled = True,
           quantityConstraints = PropertyScalarConstraints_default 0 0 0,
           UNIT = Length, m_quantity = 5\<rparr>"
  let ?w = "\<lparr>obj = \<lparr>m_group = Some 0, m_name = ''target'', m_description = [],
               m_isUserReadOnly = False, m_isUserVisible = True, m_isEnabled = True,
               quantityConstraints = PropertyScalarConstraints_ctor 0 100 1,
               UNIT = Length, m_quantity = 0\<rparr>, calls = []\<rparr>"
  have u: "UNIT (obj ?w) = UNIT ?src"
    by simp
  have v: "\<not> hasGroup (obj ?w) \<or> valid (?iv ((obj ?w)\<lparr>m_quantity := quantity ?src\<rparr>))"
    by (simp add: checkScalarConstraints_def quantityValue_def quantity_def
        PropertyScalarConstraints_ctor_def constraintsEnabled_def minimum_def maximum_def)
  from C4_quantity_variant_roundtrip[OF u, of ?iv, THEN conjunct2, THEN conjunct2,
      THEN conjunct1, THEN mp, OF v]
  show ?thesis
    by (simp add: quantity_def quantityUnit_def)
qed

text \<open>
  The claim without the proviso fails: the same length written to a length property whose
  range is 0 to 1 is rejected by the validation, and the receiver keeps its quantity 0.
\<close>

theorem C4_counterexample:
  "\<not> valid (fst (Quantity_setValueFromVariant
       (\<lambda>p. checkScalarConstraints (quantityConstraints p) (quantityValue p))
       (Quantity_valueAsVariant
          \<lparr>m_group = None, m_name = ''source'', m_description = [],
           m_isUserReadOnly = False, m_isUserVisible = True, m_isEnabled = True,
           quantityConstraints = PropertyScalarConstraints_default 0 0 0,
           UNIT = Length, m_quantity = 5\<rparr> :: unit QVariant)
       \<lparr>obj = \<lparr>m_group = Some 0, m_name = ''target'', m_description = [],
               m_isUserReadOnly = False, m_isUserVisible = True, m_isEnabled = True,
               quantityConstraints = PropertyScalarConstraints_ctor 0 1 1,
               UNIT = Length, m_quantity = 0\<rparr>, calls = []\<rparr>))
   \<and> quantity (obj (snd (Quantity_setValueFromVariant
       (\<lambda>p. checkScalarConstraints (quantityConstraints p) (quantityValue p))
       (Quantity_valueAsVariant
          \<lparr>m_group = None, m_name = ''source'', m_description = [],
           m_isUserReadOnly = False, m_isUserVisible = True, m_isEnabled = True,
           quantityConstraints = PropertyScalarConstraints_default 0 0 0,
           UNIT = Length, m_quantity = 5\<rparr> :: unit QVariant)
       \<lparr>obj = \<lparr>m_group = Some 0, m_name = ''target'', m_description = [],
               m_isUserReadOnly = False, m_isUserVisible = True, m_isEnabled = True,
               quantityConstraints = PropertyScalarConstraints_ctor 0 1 1,
               UNIT = Length, m_quantity = 0\<rparr>, calls = []\<rparr>))) = 0"
  by (simp add: Quantity_setValueFromVariant_def Quantity_valueAsVariant_def
      fromValue_Quantity_def setQuantity_def setValueHelper_def hasGroup_def
      checkScalarConstraints_def quantityValue_def quantity_def
      PropertyScalarConstraints_ctor_def constraintsEnabled_def minimum_def maximum_def)

section \<open>Properties of the scalar constraints\<close>

text \<open>
  C8. Default-constructed constraints are not enabled, and so are those of a scalar
  property built by the constructor without bounds; constraints built from a minimum, a
  maximum and a single step are enabled, and so are those of a scalar property built by
  the constructor with bounds. With constraints that are not enabled, the constraint check
  accepts every value.
\<close>

theorem C8_constraints_inactive_by_default:
  "constraintsEnabled (PropertyScalarConstraints_default u1 u2 u3) = False
   \<and> constraintsEnabled (PropertyScalarConstraints_ctor minVal maxVal step) = True
   \<and> constraintsEnabled (scalarConstraints (GenericScalarProperty_ctor2 u1 u2 u3 grp name)) = False
   \<and> constraintsEnabled
        (scalarConstraints (GenericScalarProperty_ctor5 grp name minVal maxVal step)) = True
   \<and> checkScalarConstraints
        (scalarConstraints (GenericScalarProperty_ctor2 u1 u2 u3 grp name)) v = Ok"
  by (simp add: constraintsEnabled_def PropertyScalarConstraints_default_def
      PropertyScalarConstraints_ctor_def GenericScalarProperty_ctor2_def
      GenericScalarProperty_ctor5_def checkScalarConstraints_def
      GenericScalarProperty.defs GenericProperty.defs Property.defs Property_ctor_def)

text \<open>
  C9. A member function of the constraints called on a scalar property changes the
  constraints only: the stored value, the members of \<open>Property\<close> and the recorded calls (no
  validation, no notification) stay as they were, whatever the value and the new bounds
  are. \<open>setRange\<close> sets the minimum and the maximum and keeps the single step and the
  enabled flag; each other setter sets its own member.
\<close>

theorem C9_bound_mutation_frame:
  "m_value (obj (onScalarConstraints f w)) = m_value (obj w)
   \<and> calls (onScalarConstraints f w) = calls w
   \<and> Property.truncate (obj (onScalarConstraints f w)) = Property.truncate (obj w)
   \<and> scalarConstraints (obj (onScalarConstraints f w)) = f (scalarConstraints (obj w))
   \<and> setRange minVal maxVal c = c\<lparr>m_minimum := minVal, m_maximum := maxVal\<rparr>
   \<and> m_singleStep (setRange minVal maxVal c) = m_singleStep c
   \<and> m_constraintsEnabled (setRange minVal maxVal c) = m_constraintsEnabled c
   \<and> setMinimum val c = c\<lparr>m_minimum := val\<rparr>
   \<and> setMaximum val c = c\<lparr>m_maximum := val\<rparr>
   \<and> setSingleStep val c = c\<lparr>m_singleStep := val\<rparr>
   \<and> setConstraintsEnabled on c = c\<lparr>m_constraintsEnabled := on\<rparr>"
  by (simp add: onScalarConstraints_def setRange_def setMinimum_def setMaximum_def
      setSingleStep_def setConstraintsEnabled_def Property.defs)

section \<open>Properties of the settings registry\<close>

lemma addSection_fresh:
  assumes "index < length s" and "identifier \<notin> set (sectionIdentifiers index s)"
  shows "\<exists>s'. addSection index identifier s = Inr ((index, length (group_sections (s ! index))), s')
           \<and> length s' = length s
           \<and> sectionIdentifiers index s' = sectionIdentifiers index s @ [identifier]
           \<and> (\<forall>j. j \<noteq> index \<longrightarrow> s' ! j = s ! j)"
  using assms by (simp add: addSection_def sectionIdentifiers_def Let_def)

lemma addSetting_fresh:
  assumes "gi < length s" and "si < length (group_sections (s ! gi))"
    and "name \<notin> set (settingIdentifiers (gi, si) s)"
  shows "\<exists>s'. addSetting property name (gi, si) s
             = Inr (((gi, si), length (section_settings (group_sections (s ! gi) ! si))), s')
           \<and> settingIdentifiers (gi, si) s' = settingIdentifiers (gi, si) s @ [name]"
  using assms by (simp add: addSetting_def settingIdentifiers_def Let_def)

text \<open>
  C5. Adding a group, a section or a setting whose identifier is already registered in
  the same parent scope (the registry for a group, the group for a section, the section for
  a setting) is rejected with the duplicate-identifier error. Adding an identifier that is
  not registered in the parent scope succeeds and appends it there, whatever the other
  scopes hold; in particular one section identifier can be added to two different
  groups, one after the other.
\<close>

theorem C5_duplicate_identifiers:
  "(ident \<in> set (map group_identifier s) \<longrightarrow>
      addGroup ident s = Inl DuplicateIdentifierError)
   \<and> (gi < length s \<and> ident \<in> set (sectionIdentifiers gi s) \<longrightarrow>
        addSection gi ident s = Inl DuplicateIdentifierError)
   \<and> (gi < length s \<and> si < length (group_sections (s ! gi))
        \<and> ident \<in> set (settingIdentifiers (gi, si) s) \<longrightarrow>
        addSetting property ident (gi, si) s = Inl DuplicateIdentifierError)
   \<and> (ident \<notin> set (map group_identifier s) \<longrightarrow>
        (\<exists>s'. addGroup ident s = Inr (length s, s')
           \<and> map group_identifier s' = map group_identifier s @ [ident]))
   \<and> (gi < length s \<and> ident \<notin> set (sectionIdentifiers gi s) \<longrightarrow>
        (\<exists>s'. addSection gi ident s
                 = Inr ((gi, length (group_sections (s ! gi))), s')
           \<and> sectionIdentifiers gi s' = sectionIdentifiers gi s @ [ident]))
   \<and> (gi < length s \<and> si < length (group_sections (s ! gi))
        \<and> ident \<notin> set (settingIdentifiers (gi, si) s) \<longrightarrow>
        (\<exists>s'. addSetting property ident (gi, si) s
                 = Inr (((gi, si), length (section_settings (group_sections (s ! gi) ! si))), s')
           \<and> settingIdentifiers (gi, si) s' = settingIdentifiers (gi, si) s @ [ident]))
   \<and> (gi < length s \<and> gj < length s \<and> gi \<noteq> gj
        \<and> ident \<notin> set (sectionIdentifiers gi s)
        \<and> ident \<notin> set (sectionIdentifiers gj s) \<longrightarrow>
        (\<exists>i1 s1 i2 s2. addSection gi ident s = Inr (i1, s1)
           \<and> addSection gj ident s1 = Inr (i2, s2)
           \<and> ident \<in> set (sectionIdentifiers gi s2)
           \<and> ident \<in> set (sectionIdentifiers gj s2)))"
proof (intro conjI impI)
  assume "ident \<in> set (map group_identifier s)"
  then show "addGroup ident s = Inl DuplicateIdentifierError"
    by (simp add: addGroup_def)
next
  assume "gi < length s \<and> ident \<in> set (sectionIdentifiers gi s)"
  then show "addSection gi ident s = Inl DuplicateIdentifierError"
    by (simp add: addSection_def sectionIdentifiers_def Let_def)
next
  assume "gi < length s \<and> si < length (group_sections (s ! gi))
        \<and> ident \<in> set (settingIdentifiers (gi, si) s)"
  then show "addSetting property ident (gi, si) s = Inl DuplicateIdentifierError"
    by (simp add: addSetting_def settingIdentifiers_def Let_def)
next
  assume "ident \<notin> set (map group_identifier s)"
  then show "\<exists>s'. addGroup ident s = Inr (length s, s')
           \<and> map group_identifier s' = map group_identifier s @ [ident]"
    by (simp add: addGroup_def)
next
  assume "gi < length s \<and> ident \<notin> set (sectionIdentifiers gi s)"
  then show "\<exists>s'. addSection gi ident s
                 = Inr ((gi, length (group_sections (s ! gi))), s')
           \<and> sectionIdentifiers gi s' = sectionIdentifiers gi s @ [ident]"
    using addSection_fresh[where index = gi and s = s] by blast
next
  assume "gi < length s \<and> si < length (group_sections (s ! gi))
        \<and> ident \<notin> set (settingIdentifiers (gi, si) s)"
  then show "\<exists>s'. addSetting property ident (gi, si) s
                 = Inr (((gi, si), length (section_settings (group_sections (s ! gi) ! si))), s')
           \<and> settingIdentifiers (gi, si) s' = settingIdentifiers (gi, si) s @ [ident]"
    using addSetting_fresh[where gi = gi and si = si and s = s] by blast
next
  assume a: "gi < length s \<and> gj < length s \<and> gi \<noteq> gj
        \<and> ident \<notin> set (sectionIdentifiers gi s)
        \<and> ident \<notin> set (sectionIdentifiers gj s)"
  have lt1: "gi < length s" and fresh1: "ident \<notin> set (sectionIdentifiers gi s)"
    using a by simp_all
  from addSection_fresh[OF lt1 fresh1] obtain s1 where
    s1: "addSection gi ident s = Inr ((gi, length (group_sections (s ! gi))), s1)"
      "length s1 = length s"
      "sectionIdentifiers gi s1 = sectionIdentifiers gi s @ [ident]"
      "\<forall>j. j \<noteq> gi \<longrightarrow> s1 ! j = s ! j"
    by blast
  have same1: "sectionIdentifiers gj s1 = sectionIdentifiers gj s"
    using a s1(4) by (simp add: sectionIdentifiers_def)
  have lt2: "gj < length s1" and fresh2: "ident \<notin> set (sectionIdentifiers gj s1)"
    using a s1(2) same1 by simp_all
  from addSection_fresh[OF lt2 fresh2] obtain s2 where
    s2: "addSection gj ident s1 = Inr ((gj, length (group_sections (s1 ! gj))), s2)"
      "length s2 = length s1"
      "sectionIdentifiers gj s2 = sectionIdentifiers gj s1 @ [ident]"
      "\<forall>j. j \<noteq> gj \<longrightarrow> s2 ! j = s1 ! j"
    by blast
  have same2: "sectionIdentifiers gi s2 = sectionIdentifiers gi s1"
    using a s2(4) by (simp add: sectionIdentifiers_def)
  have "ident \<in> set (sectionIdentifiers gi s2)"
    by (simp add: same2 s1(3))
  moreover have "ident \<in> set (sectionIdentifiers gj s2)"
    by (simp add: s2(3))
  ultimately show "\<exists>i1 s1 i2 s2. addSection gi ident s = Inr (i1, s1)
           \<and> addSection gj ident s1 = Inr (i2, s2)
           \<and> ident \<in> set (sectionIdentifiers gi s2)
           \<and> ident \<in> set (sectionIdentifiers gj s2)"
    using s1(1) s2(1) by blast
qed

text \<open>
  A registry with the groups g1 (a default section and the section sec with the setting
  p) and g2: the duplicates are rejected, and sec is accepted under g2, p under the default
  section of g1.
\<close>

theorem C5_duplicate_identifiers_witness:
  "addGroup ''g1''
     [\<lparr>group_identifier = ''g1'', group_title = ''g1'',
       group_sections = [defaultSection,
         \<lparr>section_identifier = ''sec'', section_title = ''sec'', section_isDefault = False,
          section_settings = [\<lparr>setting_identifier = ''p'', setting_property = 7\<rparr>]\<rparr>]\<rparr>,
      \<lparr>group_identifier = ''g2'', group_title = ''g2'', group_sections = [defaultSection]\<rparr>]
     = Inl DuplicateIdentifierError
   \<and> addSection 0 ''sec''
     [\<lparr>group_identifier = ''g1'', group_title = ''g1'',
       group_sections = [defaultSection,
         \<lparr>section_identifier = ''sec'', section_title = ''sec'', section_isDefault = False,
          section_settings = [\<lparr>setting_identifier = ''p'', setting_property = 7\<rparr>]\<rparr>]\<rparr>,
      \<lparr>group_identifier = ''g2'', group_title = ''g2'', group_sections = [defaultSection]\<rparr>]
     = Inl DuplicateIdentifierError
   \<and> addSetting 9 ''p'' (0, 1)
     [\<lparr>group_identifier = ''g1'', group_title = ''g1'',
       group_sections = [defaultSection,
         \<lparr>section_identifier = ''sec'', section_title = ''sec'', section_isDefault = False,
          section_settings = [\<lparr>setting_identifier = ''p'', setting_property = 7\<rparr>]\<rparr>]\<rparr>,
      \<lparr>group_identifier = ''g2'', group_title = ''g2'', group_sections = [defaultSection]\<rparr>]
     = Inl DuplicateIdentifierError
   \<and> (\<exists>s'. addSection 1 ''sec''
     [\<lparr>group_identifier = ''g1'', group_title = ''g1'',
       group_sections = [defaultSection,
         \<lparr>section_identifier = ''sec'', section_title = ''sec'', section_isDefault = False,
          section_settings = [\<lparr>setting_identifier = ''p'', setting_property = 7\<rparr>]\<rparr>]\<rparr>,
      \<lparr>group_identifier = ''g2'', group_title = ''g2'', group_sections = [defaultSection]\<rparr>]
     = Inr ((1, 1), s') \<and> sectionIdentifiers 1 s' = [[], ''sec''])
   \<and> (\<exists>s'. addSetting 9 ''p'' (0, 0)
     [\<lparr>group_identifier = ''g1'', group_title = ''g1'',
       group_sections = [defaultSection,
         \<lparr>section_identifier = ''sec'', section_title = ''sec'', section_isDefault = False,
          section_settings = [\<lparr>setting_identifier = ''p'', setting_property = 7\<rparr>]\<rparr>]\<rparr>,
      \<lparr>group_identifier = ''g2'', group_title = ''g2'', group_sections = [defaultSection]\<rparr>]
     = Inr (((0, 0), 0), s') \<and> settingIdentifiers (0, 0) s' = [''p''])
   \<and> (\<exists>i1 s1 i2 s2. addSection 0 ''new''
     [\<lparr>group_identifier = ''g1'', group_title = ''g1'',
       group_sections = [defaultSection,
         \<lparr>section_identifier = ''sec'', section_title = ''sec'', section_isDefault = False,
          section_settings = [\<lparr>setting_identifier = ''p'', setting_property = 7\<rparr>]\<rparr>]\<rparr>,
      \<lparr>group_identifier = ''g2'', group_title = ''g2'', group_sections = [defaultSection]\<rparr>]
     = Inr (i1, s1) \<and> addSection 1 ''new'' s1 = Inr (i2, s2)
       \<and> ''new'' \<in> set (sectionIdentifiers 0 s2) \<and> ''new'' \<in> set (sectionIdentifiers 1 s2))"
proof -
  let ?s = "[\<lparr>group_identifier = ''g1'', group_title = ''g1'',
       group_sections = [defaultSection,
         \<lparr>section_identifier = ''sec'', section_title = ''sec'', section_isDefault = False,
          section_settings = [\<lparr>setting_identifier = ''p'', setting_property = 7\<rparr>]\<rparr>]\<rparr>,
      \<lparr>group_identifier = ''g2'', group_title = ''g2'', group_sections = [defaultSection]\<rparr>]"
  note d = sectionIdentifiers_def settingIdentifiers_def defaultSection_def
  have 1: "addGroup ''g1'' ?s = Inl DuplicateIdentifierError"
    by (rule C5_duplicate_identifiers[where ident = "''g1''" and s = ?s,
          THEN conjunct1, THEN mp]) simp
  have 2: "addSection 0 ''sec'' ?s = Inl DuplicateIdentifierError"
    by (rule C5_duplicate_identifiers[where ident = "''sec''" and s = ?s and gi = 0,
          THEN conjunct2, THEN conjunct1, THEN mp]) (simp add: d)
  have 3: "addSetting 9 ''p'' (0, 1) ?s = Inl DuplicateIdentifierError"
    by (rule C5_duplicate_identifiers[where ident = "''p''" and s = ?s and gi = 0
            and si = 1,
          THEN conjunct2, THEN conjunct2, THEN conjunct1, THEN mp]) (simp add: d)
  have 4: "\<exists>s'. addSection 1 ''sec'' ?s = Inr ((1, 1), s')
             \<and> sectionIdentifiers 1 s' = [[], ''sec'']"
    using C5_duplicate_identifiers[where ident = "''sec''" and s = ?s and gi = 1,
          THEN conjunct2, THEN conjunct2, THEN conjunct2, THEN conjunct2, THEN conjunct1]
    by (simp add: d)
  have 5: "\<exists>s'. addSetting 9 ''p'' (0, 0) ?s = Inr (((0, 0), 0), s')
             \<and> settingIdentifiers (0, 0) s' = [''p'']"
    using C5_duplicate_identifiers[where ident = "''p''" and s = ?s and gi = 0
            and si = 0 and property = 9,
          THEN conjunct2, THEN conjunct2, THEN conjunct2, THEN conjunct2, THEN conjunct2,
          THEN conjunct1]
    by (simp add: d)
  have 6: "\<exists>i1 s1 i2 s2. addSection 0 ''new'' ?s = Inr (i1, s1)
       \<and> addSection 1 ''new'' s1 = Inr (i2, s2)
       \<and> ''new'' \<in> set (sectionIdentifiers 0 s2) \<and> ''new'' \<in> set (sectionIdentifiers 1 s2)"
    by (rule C5_duplicate_identifiers[where ident = "''new''" and s = ?s and gi = 0
            and gj = 1,
          THEN conjunct2, THEN conjunct2, THEN conjunct2, THEN conjunct2, THEN conjunct2,
          THEN conjunct2, THEN mp]) (simp add: d)
  show ?thesis
    using 1 2 3 4 5 6 by (simp only:)
qed

section \<open>Properties of the DXF reader\<close>

text \<open>
  Distances between converted points, and so the radius a circle or arc callback computes,
  are the given ones times the scaling factor.
\<close>

lemma Distance_toPnt:
  "Distance (toPnt st p) (toPnt st q) = \<bar>m_params_scaling st\<bar> * Distance p q"
proof -
  obtain x1 y1 z1 where p: "p = (x1, y1, z1)" by (cases p) auto
  obtain x2 y2 z2 where q: "q = (x2, y2, z2)" by (cases q) auto
  define k where "k = m_params_scaling st"
  have "(x1 * k - x2 * k) * (x1 * k - x2 * k) + (y1 * k - y2 * k) * (y1 * k - y2 * k)
        + (z1 * k - z2 * k) * (z1 * k - z2 * k)
      = k\<^sup>2 * ((x1 - x2) * (x1 - x2) + (y1 - y2) * (y1 - y2) + (z1 - z2) * (z1 - z2))"
    by (simp add: algebra_simps power2_eq_square)
  then have "sqrt ((x1 * k - x2 * k) * (x1 * k - x2 * k) + (y1 * k - y2 * k) * (y1 * k - y2 * k)
        + (z1 * k - z2 * k) * (z1 * k - z2 * k))
      = \<bar>k\<bar> * sqrt ((x1 - x2) * (x1 - x2) + (y1 - y2) * (y1 - y2) + (z1 - z2) * (z1 - z2))"
    by (simp add: real_sqrt_mult)
  then show ?thesis
    by (cases "k = 1") (simp_all add: p q k_def)
qed

lemma addShape_layers_present:
  assumes "map_of (m_layers st) (LayerName st) = Some vecShape"
  shows "m_layers (addShape shape st)
           = AList.update (LayerName st) (vecShape @ [shape]) (m_layers st)"
  using assms by (simp add: addShape_def Let_def)

lemma addShape_layers_absent:
  assumes "map_of (m_layers st) (LayerName st) = None"
  shows "m_layers (addShape shape st) = m_layers st"
  using assms by (simp add: addShape_def Let_def)

lemma addShape_LayerName: "LayerName (addShape shape st) = LayerName st"
  by (simp add: addShape_def Let_def split: option.split)

lemma addShape_keys: "map fst (m_layers (addShape shape st)) = map fst (m_layers st)"
proof (cases "map_of (m_layers st) (LayerName st)")
  case None
  then show ?thesis by (simp add: addShape_layers_absent)
next
  case (Some v)
  then have "LayerName st \<in> fst ` set (m_layers st)"
    by (force dest: map_of_SomeD)
  then show ?thesis
    using Some by (simp add: addShape_layers_present AList.update_keys map_idI) 
qed

lemma OnReadInsert_loop_keys:
  "OnReadInsert_loop point scale prefix rotation ks st = Some st' \<Longrightarrow>
     map fst (m_layers st') = map fst (m_layers st)"
proof (induction ks arbitrary: st)
  case Nil
  then show ?case by simp
next
  case (Cons k ks)
  then show ?case
    by (auto simp: Let_def addShape_keys split: if_splits option.splits)
qed

lemma OnReadInsert_loop_absent:
  "map_of (m_layers st) (LayerName st) = None \<Longrightarrow>
   OnReadInsert_loop point scale prefix rotation ks st = Some st' \<Longrightarrow>
     m_layers st' = m_layers st"
proof (induction ks arbitrary: st)
  case Nil
  then show ?case by simp
next
  case (Cons k ks)
  show ?case
  proof (cases "take (length prefix) k \<noteq> prefix")
    case True
    with Cons show ?thesis by simp
  next
    case False
    define comp where "comp = (\<lambda>l. Compound (filter (\<lambda>shape. \<not> IsNull shape)
        (case map_of (m_layers st) k of Some v \<Rightarrow> v | None \<Rightarrow> [])) l)"
    from False Cons.prems(2) obtain trsf where
      t: "insertTrsf st point scale rotation = Some trsf"
      and r: "OnReadInsert_loop point scale prefix rotation ks (addShape (comp (Some trsf)) st)
               = Some st'"
      by (auto simp: Let_def comp_def split: option.splits)
    have "map_of (m_layers (addShape (comp (Some trsf)) st))
            (LayerName (addShape (comp (Some trsf)) st)) = None"
      using Cons.prems(1) by (simp add: addShape_LayerName addShape_layers_absent)
    from Cons.IH[OF this r] show ?thesis
      using Cons.prems(1) by (simp add: addShape_layers_absent)
  qed
qed

text \<open>
  What the transformation of \<open>OnReadInsert\<close> does to a point, for a uniform scale \<open>k\<close>: it
  adds the insertion point first, rotates the sum, and scales last.
\<close>

lemma insertTrsf_Transforms:
  assumes "k \<noteq> 0" and "toPnt st point = (px, py, pz)"
  shows "\<exists>t. insertTrsf st point (k, k, k) rotation = Some t
           \<and> Transforms t (x, y, z)
               = (k * (cos rotation * (x + px) - sin rotation * (y + py)),
                  k * (sin rotation * (x + px) + cos rotation * (y + py)),
                  k * (z + pz))"
  using assms
  by (simp add: insertTrsf_def SetValues_diagonal_def SetRotation_OZ_def SetTranslation_def
      Multiplied_def Transforms_def algebra_simps)

text \<open>
  C6. A block B holding one vertex at the origin is inserted at the point (1, 0, 0) with
  the scale (2, 2, 2) and no rotation. The compound that \<open>OnReadInsert\<close> adds to the current
  layer carries the translation (2, 0, 0), so the vertex is put at (2, 0, 0); scaling
  first, rotating next and translating to the insertion point last puts it at (1, 0, 0),
  the insertion point.
\<close>

theorem C6_insert_at_input:
  "OnReadInsert (1, 0, 0) (2, 2, 2) ''B'' 0
     \<lparr>m_layers = [(''BLOCKS B 0'', [Vertex (0, 0, 0)]), (''0'', [])],
      m_groupLayers = True, m_importAnnotations = False, m_params_scaling = 1,
      LayerName = ''0'', document = []\<rparr>
   = Some
     \<lparr>m_layers = [(''BLOCKS B 0'', [Vertex (0, 0, 0)]),
                  (''0'', [Compound [Vertex (0, 0, 0)]
                     (Some \<lparr>trsf_matrix = ((2, 0, 0), (0, 2, 0), (0, 0, 2)),
                            trsf_loc = (2, 0, 0)\<rparr>)])],
      m_groupLayers = True, m_importAnnotations = False, m_params_scaling = 1,
      LayerName = ''0'', document = []\<rparr>
   \<and> placedVertices (Compound [Vertex (0, 0, 0)]
          (Some \<lparr>trsf_matrix = ((2, 0, 0), (0, 2, 0), (0, 0, 2)), trsf_loc = (2, 0, 0)\<rparr>))
       = [(2, 0, 0)]
   \<and> scaleRotateTranslate (2, 2, 2) 0 (1, 0, 0) (0, 0, 0) = (1, 0, 0)"
  by (simp add: OnReadInsert_def insertTrsf_def SetValues_diagonal_def SetRotation_OZ_def
      SetTranslation_def Multiplied_def Transforms_def addShape_def Let_def)

lemma OnReadCircle_degenerate:
  "Distance (toPnt st s) (toPnt st c) = 0 \<Longrightarrow> OnReadCircle p1 s c dir hidden st = Some st"
  by (simp add: OnReadCircle_def Let_def Radius_def)

lemma OnReadLine_degenerate:
  "IsEqual (toPnt st s) (toPnt st e) Precision_Confusion \<Longrightarrow> OnReadLine s e hidden st = st"
  by (simp add: OnReadLine_def Let_def)

lemma Distance_self: "Distance p p = 0"
  by (cases p) simp

lemma sqrt_100: "sqrt 100 = (10 :: real)"
  by (rule real_sqrt_unique) simp_all

text \<open>
  C7. A reader with scaling factor 2 whose current layer is registered reads the circle
  through (5, 0, 0) about the origin. The computed circle has radius 10 and the start
  point (10, 0, 0) is on it. What the callback does then depends on the point its builder
  call names without declaring it: for a point on the circle the edge it appends is the
  part of the circle between the start point and that point, for any other point, the
  centre for one, the builder is not done and no shape is added. The degenerate
  primitives are skipped: a circle whose start point is its centre and a line whose end
  points are equal leave the reader as it was.
\<close>

theorem C7_circle_at_input:
  "OnReadCircle p1 (5, 0, 0) (0, 0, 0) True False
     \<lparr>m_layers = [(''0'', [])], m_groupLayers = True, m_importAnnotations = False,
      m_params_scaling = 2, LayerName = ''0'', document = []\<rparr>
   = (if distanceToCirc
           \<lparr>circ_position = \<lparr>ax_location = (0, 0, 0), ax_direction = (0, 0, 1)\<rparr>,
            circ_radius = 10\<rparr> p1 < Precision_Confusion
      then Some
        \<lparr>m_layers = [(''0'', [Edge_Circ
            \<lparr>circ_position = \<lparr>ax_location = (0, 0, 0), ax_direction = (0, 0, 1)\<rparr>,
             circ_radius = 10\<rparr> (10, 0, 0) p1])],
         m_groupLayers = True, m_importAnnotations = False,
         m_params_scaling = 2, LayerName = ''0'', document = []\<rparr>
      else None)
   \<and> OnReadCircle (0, 0, 0) (5, 0, 0) (0, 0, 0) True False
     \<lparr>m_layers = [(''0'', [])], m_groupLayers = True, m_importAnnotations = False,
      m_params_scaling = 2, LayerName = ''0'', document = []\<rparr>
     = None
   \<and> OnReadCircle p1 c c dir hidden st = Some st
   \<and> OnReadLine s s hidden st = st"
proof (intro conjI)
  let ?st = "\<lparr>m_layers = [(''0'', [])], m_groupLayers = True, m_importAnnotations = False,
      m_params_scaling = 2, LayerName = ''0'', document = []\<rparr>"
  let ?circ = "\<lparr>circ_position = \<lparr>ax_location = (0, 0, 0), ax_direction = (0, 0, 1)\<rparr>,
            circ_radius = 10\<rparr>"
  have p0: "distanceToCirc ?circ (10, 0, 0) < Precision_Confusion"
    by (simp add: sqrt_100 Precision_Confusion_def)
  have unfold: "OnReadCircle q (5, 0, 0) (0, 0, 0) True False ?st
      = (case MakeEdge_Circ ?circ (10, 0, 0) q of
           None \<Rightarrow> None | Some edge \<Rightarrow> Some (addShape edge ?st))" for q
    by (simp add: OnReadCircle_def Let_def Radius_def sqrt_100 DZ_def)
  show "OnReadCircle p1 (5, 0, 0) (0, 0, 0) True False ?st
      = (if distanceToCirc ?circ p1 < Precision_Confusion
         then Some
           \<lparr>m_layers = [(''0'', [Edge_Circ ?circ (10, 0, 0) p1])],
            m_groupLayers = True, m_importAnnotations = False,
            m_params_scaling = 2, LayerName = ''0'', document = []\<rparr>
         else None)"
    unfolding unfold MakeEdge_Circ_def using p0 by (simp add: addShape_def Let_def)
  have centre: "\<not> distanceToCirc ?circ (0, 0, 0) < Precision_Confusion"
    by (simp add: Precision_Confusion_def)
  show "OnReadCircle (0, 0, 0) (5, 0, 0) (0, 0, 0) True False ?st = None"
    unfolding unfold MakeEdge_Circ_def using centre by simp
  show "OnReadCircle p1 c c dir hidden st = Some st"
    by (rule OnReadCircle_degenerate) (rule Distance_self)
  show "OnReadLine s s hidden st = st"
    by (rule OnReadLine_degenerate)
      (simp add: IsEqual_def Distance_self Precision_Confusion_def)
qed

text \<open>
  C10, amended. \<open>addShape\<close> never adds or removes a key of \<open>m_layers\<close>. When the current
  layer is a key the shape is appended to its shapes; when it is not, \<open>m_layers\<close> is left as
  it was, by \<open>addShape\<close> and so by every callback, and no callback changes the keys. The
  shape is then lost altogether when
  \<open>m_groupLayers\<close> is set or the layer name starts with "BLOCKS"; otherwise it is kept
  as a feature of the document only.
\<close>

theorem C10_addShape_layers:
  "map fst (m_layers (addShape shape st)) = map fst (m_layers st)
   \<and> (map_of (m_layers st) (LayerName st) = Some vecShape \<longrightarrow>
        m_layers (addShape shape st)
          = AList.update (LayerName st) (vecShape @ [shape]) (m_layers st))
   \<and> (map_of (m_layers st) (LayerName st) = None \<longrightarrow>
        m_layers (addShape shape st) = m_layers st)
   \<and> (map_of (m_layers st) (LayerName st) = None
        \<and> (m_groupLayers st \<or> take 6 (LayerName st) = ''BLOCKS'') \<longrightarrow>
        addShape shape st = st)
   \<and> (map_of (m_layers st) (LayerName st) = None
        \<and> \<not> m_groupLayers st \<and> take 6 (LayerName st) \<noteq> ''BLOCKS'' \<longrightarrow>
        addShape shape st = st\<lparr>document := document st @ [shape]\<rparr>)
   \<and> (map_of (m_layers st) (LayerName st) = None \<longrightarrow>
        m_layers (OnReadLine s e hidden st) = m_layers st
        \<and> m_layers (OnReadPoint s st) = m_layers st
        \<and> (\<forall>st'. OnReadArc s e c dir hidden st = Some st' \<longrightarrow> m_layers st' = m_layers st)
        \<and> (\<forall>st'. OnReadCircle p1 s c dir hidden st = Some st' \<longrightarrow>
                    m_layers st' = m_layers st)
        \<and> m_layers (OnReadSpline fromPoles fromFit sd st) = m_layers st
        \<and> m_layers (OnReadText point height text st) = m_layers st
        \<and> m_layers (OnReadDimension s e point rotation st) = m_layers st
        \<and> (\<forall>st'. OnReadEllipse c major_radius minor_radius rotation start_angle end_angle
                    dir st = Some st' \<longrightarrow> m_layers st' = m_layers st)
        \<and> (\<forall>st'. OnReadInsert point scale name rotation st = Some st' \<longrightarrow>
                    m_layers st' = m_layers st))
   \<and> map fst (m_layers (OnReadLine s e hidden st)) = map fst (m_layers st)
   \<and> map fst (m_layers (OnReadPoint s st)) = map fst (m_layers st)
   \<and> (\<forall>st'. OnReadArc s e c dir hidden st = Some st' \<longrightarrow>
                map fst (m_layers st') = map fst (m_layers st))
   \<and> (\<forall>st'. OnReadCircle p1 s c dir hidden st = Some st' \<longrightarrow>
                map fst (m_layers st') = map fst (m_layers st))
   \<and> map fst (m_layers (OnReadSpline fromPoles fromFit sd st)) = map fst (m_layers st)
   \<and> (\<forall>st'. OnReadEllipse c major_radius minor_radius rotation start_angle end_angle
                dir st = Some st' \<longrightarrow> map fst (m_layers st') = map fst (m_layers st))
   \<and> (\<forall>st'. OnReadInsert point scale name rotation st = Some st' \<longrightarrow>
                map fst (m_layers st') = map fst (m_layers st))"
proof (intro conjI impI allI)
  show "map fst (m_layers (addShape shape st)) = map fst (m_layers st)"
    by (rule addShape_keys)
  show "map fst (m_layers (OnReadLine s e hidden st)) = map fst (m_layers st)"
    by (simp add: OnReadLine_def Let_def addShape_keys)
  show "map fst (m_layers (OnReadPoint s st)) = map fst (m_layers st)"
    by (simp add: OnReadPoint_def addShape_keys)
  show "map fst (m_layers st') = map fst (m_layers st)"
    if "OnReadArc s e c dir hidden st = Some st'" for st'
    using that
    by (auto simp: OnReadArc_def Let_def addShape_keys split: option.splits if_splits)
  show "map fst (m_layers st') = map fst (m_layers st)"
    if "OnReadCircle p1 s c dir hidden st = Some st'" for st'
    using that
    by (auto simp: OnReadCircle_def Let_def addShape_keys split: option.splits if_splits)
  show "map fst (m_layers (OnReadSpline fromPoles fromFit sd st)) = map fst (m_layers st)"
    by (simp add: OnReadSpline_def Let_def addShape_keys split: option.split)
  show "map fst (m_layers st') = map fst (m_layers st)"
    if "OnReadEllipse c major_radius minor_radius rotation start_angle end_angle dir st
          = Some st'" for st'
    using that
    by (auto simp: OnReadEllipse_def Let_def addShape_keys split: option.splits if_splits)
  show "map fst (m_layers st') = map fst (m_layers st)"
    if "OnReadInsert point scale name rotation st = Some st'" for st'
    using that by (auto simp: OnReadInsert_def Let_def dest: OnReadInsert_loop_keys)
next
  assume "map_of (m_layers st) (LayerName st) = Some vecShape"
  then show "m_layers (addShape shape st)
          = AList.update (LayerName st) (vecShape @ [shape]) (m_layers st)"
    by (rule addShape_layers_present)
next
  assume "map_of (m_layers st) (LayerName st) = None"
  then show "m_layers (addShape shape st) = m_layers st"
    by (rule addShape_layers_absent)
next
  assume "map_of (m_layers st) (LayerName st) = None
        \<and> (m_groupLayers st \<or> take 6 (LayerName st) = ''BLOCKS'')"
  then show "addShape shape st = st"
    by (auto simp: addShape_def Let_def)
next
  assume "map_of (m_layers st) (LayerName st) = None
        \<and> \<not> m_groupLayers st \<and> take 6 (LayerName st) \<noteq> ''BLOCKS''"
  then show "addShape shape st = st\<lparr>document := document st @ [shape]\<rparr>"
    by (simp add: addShape_def Let_def)
next
  assume a: "map_of (m_layers st) (LayerName st) = None"
  show "m_layers (OnReadLine s e hidden st) = m_layers st"
    using a by (simp add: OnReadLine_def Let_def addShape_layers_absent)
  show "m_layers (OnReadPoint s st) = m_layers st"
    using a by (simp add: OnReadPoint_def addShape_layers_absent)
  show "m_layers st' = m_layers st"
    if "OnReadArc s e c dir hidden st = Some st'" for st'
    using a that
    by (auto simp: OnReadArc_def Let_def addShape_layers_absent
        split: option.splits if_splits)
  show "m_layers st' = m_layers st"
    if "OnReadCircle p1 s c dir hidden st = Some st'" for st'
    using a that
    by (auto simp: OnReadCircle_def Let_def addShape_layers_absent
        split: option.splits if_splits)
  show "m_layers (OnReadSpline fromPoles fromFit sd st) = m_layers st"
    using a by (simp add: OnReadSpline_def Let_def addShape_layers_absent split: option.split)
  show "m_layers (OnReadText point height text st) = m_layers st"
    by (simp add: OnReadText_def)
  show "m_layers (OnReadDimension s e point rotation st) = m_layers st"
    by (simp add: OnReadDimension_def)
  show "m_layers st' = m_layers st"
    if "OnReadEllipse c major_radius minor_radius rotation start_angle end_angle dir st
          = Some st'" for st'
    using a that
    by (auto simp: OnReadEllipse_def Let_def addShape_layers_absent
        split: option.splits if_splits)
  show "m_layers st' = m_layers st"
    if "OnReadInsert point scale name rotation st = Some st'" for st'
    using a that by (auto simp: OnReadInsert_def Let_def dest: OnReadInsert_loop_absent)
qed

text \<open>
  A reader with the one layer 0: a vertex read on layer 0 is appended; read on layer 1
  it is lost when layers are grouped, and is a feature of the document when they are not.
\<close>

theorem C10_addShape_layers_witness:
  "m_layers (addShape (Vertex (0, 0, 0))
     \<lparr>m_layers = [(''0'', [Vertex (1, 1, 1)])], m_groupLayers = True,
      m_importAnnotations = False, m_params_scaling = 1, LayerName = ''0'', document = []\<rparr>)
   = [(''0'', [Vertex (1, 1, 1), Vertex (0, 0, 0)])]
   \<and> addShape (Vertex (0, 0, 0))
     \<lparr>m_layers = [(''0'', [Vertex (1, 1, 1)])], m_groupLayers = True,
      m_importAnnotations = False, m_params_scaling = 1, LayerName = ''1'', document = []\<rparr>
   = \<lparr>m_layers = [(''0'', [Vertex (1, 1, 1)])], m_groupLayers = True,
      m_importAnnotations = False, m_params_scaling = 1, LayerName = ''1'', document = []\<rparr>
   \<and> addShape (Vertex (0, 0, 0))
     \<lparr>m_layers = [(''0'', [Vertex (1, 1, 1)])], m_groupLayers = False,
      m_importAnnotations = False, m_params_scaling = 1, LayerName = ''1'', document = []\<rparr>
   = \<lparr>m_layers = [(''0'', [Vertex (1, 1, 1)])], m_groupLayers = False,
      m_importAnnotations = False, m_params_scaling = 1, LayerName = ''1'',
      document = [Vertex (0, 0, 0)]\<rparr>
   \<and> m_layers (OnReadPoint (2, 2, 2)
     \<lparr>m_layers = [(''0'', [Vertex (1, 1, 1)])], m_groupLayers = True,
      m_importAnnotations = False, m_params_scaling = 1, LayerName = ''1'', document = []\<rparr>)
   = [(''0'', [Vertex (1, 1, 1)])]"
proof -
  let ?present = "\<lparr>m_layers = [(''0'', [Vertex (1, 1, 1)])], m_groupLayers = True,
      m_importAnnotations = False, m_params_scaling = 1, LayerName = ''0'', document = []\<rparr>"
  let ?absent = "\<lparr>m_layers = [(''0'', [Vertex (1, 1, 1)])], m_groupLayers = True,
      m_importAnnotations = False, m_params_scaling = 1, LayerName = ''1'', document = []\<rparr>"
  let ?loose = "\<lparr>m_layers = [(''0'', [Vertex (1, 1, 1)])], m_groupLayers = False,
      m_importAnnotations = False, m_params_scaling = 1, LayerName = ''1'', document = []\<rparr>"
  have 1: "m_layers (addShape (Vertex (0, 0, 0)) ?present)
      = AList.update (LayerName ?present) ([Vertex (1, 1, 1)] @ [Vertex (0, 0, 0)])
          (m_layers ?present)"
    by (rule C10_addShape_layers[where shape = "Vertex (0, 0, 0)" and st = ?present
            and vecShape = "[Vertex (1, 1, 1)]",
          THEN conjunct2, THEN conjunct1, THEN mp]) simp
  have 2: "addShape (Vertex (0, 0, 0)) ?absent = ?absent"
    by (rule C10_addShape_layers[where shape = "Vertex (0, 0, 0)" and st = ?absent,
          THEN conjunct2, THEN conjunct2, THEN conjunct2, THEN conjunct1, THEN mp]) simp
  have 3: "addShape (Vertex (0, 0, 0)) ?loose
      = ?loose\<lparr>document := document ?loose @ [Vertex (0, 0, 0)]\<rparr>"
    by (rule C10_addShape_layers[where shape = "Vertex (0, 0, 0)" and st = ?loose,
          THEN conjunct2, THEN conjunct2, THEN conjunct2, THEN conjunct2, THEN conjunct1,
          THEN mp]) simp
  have 4: "m_layers (OnReadPoint (2, 2, 2) ?absent) = m_layers ?absent"
    using C10_addShape_layers[where st = ?absent and s = "(2, 2, 2)",
          THEN conjunct2, THEN conjunct2, THEN conjunct2, THEN conjunct2, THEN conjunct2]
    by simp
  show ?thesis
    using 1 2 3 4 by simp
qed

text \<open>
  The claim as stated fails: with the current layer not among the keys,
  \<open>m_groupLayers\<close> not set and a layer name that does not start with "BLOCKS", the
  shape is not discarded, it becomes a feature of the document.
\<close>

theorem C10_counterexample:
  "addShape (Vertex (0, 0, 0))
     \<lparr>m_layers = [], m_groupLayers = False, m_importAnnotations = False,
      m_params_scaling = 1, LayerName = ''0'', document = []\<rparr>
   = \<lparr>m_layers = [], m_groupLayers = False, m_importAnnotations = False,
      m_params_scaling = 1, LayerName = ''0'', document = [Vertex (0, 0, 0)]\<rparr>"
  by (simp add: addShape_def)


end
